theory Spec2Isabelle
  imports Complex_Main "HOL-Library.Product_Lexorder"
begin

section \<open>Python values\<close>

text \<open>
  A Python \<open>str\<close> is a sequence of Unicode code points; it is modelled as the list of
  those code points. \<open>u\<close> turns an ASCII literal into such a list. The four accented
  letters of the source are the precomposed code points
  \<open>U+00E2\<close> (a circumflex), \<open>U+00E7\<close> (c cedilla), \<open>U+00E3\<close> (a tilde) and
  \<open>U+00ED\<close> (i acute), as the bytes of \<open>BcBData.py\<close> encode them.
\<close>

type_synonym pystr = "nat list"

definition u :: "string \<Rightarrow> pystr" where
  "u s = map of_char s"

definition apostrophe :: pystr where
  "apostrophe = [39]"

definition a_circumflex :: pystr where
  "a_circumflex = [226]"

definition c_cedilla_a_tilde :: pystr where
  "c_cedilla_a_tilde = [231, 227]"

definition i_acute :: pystr where
  "i_acute = [237]"

text \<open>Exceptions are values. \<open>Exception\<close> carries the message of a bare \<open>raise Exception(...)\<close>;
  \<open>External\<close> stands for whatever a collaborator (HTTP, CSV or date parsing) raises.\<close>

datatype error =
  Exception pystr | ValueError | KeyError | IndexError | TypeError | InvalidIndexError | External nat

text \<open>\<open>sep.join(xs)\<close>.\<close>

fun join :: "pystr \<Rightarrow> pystr list \<Rightarrow> pystr" where
  "join sep [] = []"
| "join sep [x] = x"
| "join sep (x # y # ys) = x @ sep @ join sep (y # ys)"

text \<open>
  \<open>s.replace(old, new)\<close>: every non-overlapping occurrence of \<open>old\<close>, found from the
  left, is replaced. With an empty \<open>old\<close> Python puts \<open>new\<close> before every character and
  at the end.
\<close>

function replace_from :: "pystr \<Rightarrow> pystr \<Rightarrow> pystr \<Rightarrow> pystr" where
  "replace_from old new [] = []"
| "replace_from old new (c # cs) =
     (if old \<noteq> [] \<and> take (length old) (c # cs) = old
      then new @ replace_from old new (drop (length old) (c # cs))
      else c # replace_from old new cs)"
  by pat_completeness auto
termination
  by (relation "measure (\<lambda>(old, new, s). length s)") auto

definition replace :: "pystr \<Rightarrow> pystr \<Rightarrow> pystr \<Rightarrow> pystr" where
  "replace s old new =
     (if old = [] then new @ concat (map (\<lambda>c. c # new) s) else replace_from old new s)"

text \<open>Truthiness of an optional list or string: \<open>None\<close> and the empty value are false.\<close>

fun truthy :: "'a list option \<Rightarrow> bool" where
  "truthy None = False"
| "truthy (Some xs) = (xs \<noteq> [])"

section \<open>The query URL of the expectations service\<close>

definition urls_dict :: "(pystr \<times> pystr) list" where
  "urls_dict =
    [(u ''annual'', u ''https://olinda.bcb.gov.br/olinda/servico/Expectativas/versao/v1/odata/ExpectativasMercadoAnuais''),
     (u ''quarterly'', u ''https://olinda.bcb.gov.br/olinda/servico/Expectativas/versao/v1/odata/ExpectativasMercadoTrimestrais''),
     (u ''monthly'', u ''https://olinda.bcb.gov.br/olinda/servico/Expectativas/versao/v1/odata/ExpectativaMercadoMensais''),
     (u ''inflation-12-months'', u ''https://olinda.bcb.gov.br/olinda/servico/Expectativas/versao/v1/odata/ExpectativasMercadoInflacao12Meses''),
     (u ''top5s-monthly'', u ''https://olinda.bcb.gov.br/olinda/servico/Expectativas/versao/v1/odata/ExpectativasMercadoTop5Mensais''),
     (u ''top5s-annual'', u ''https://olinda.bcb.gov.br/olinda/servico/Expectativas/versao/v1/odata/ExpectativasMercadoTop5Anuais''),
     (u ''institutions'', u ''https://olinda.bcb.gov.br/olinda/servico/Expectativas/versao/v1/odata/ExpectativasMercadoInstituicoes'')]"

definition select :: pystr where
  "select = u ''Indicador,Data,DataReferencia,Media,Mediana,DesvioPadrao,Minimo,Maximo,numeroRespondentes,baseCalculo''"

definition indic_filter :: "pystr list \<Rightarrow> pystr" where
  "indic_filter Indicators =
     join (u '' or '') (map (\<lambda>i. u ''Indicador eq '' @ apostrophe @ i @ apostrophe) Indicators)"

definition start_filter :: "pystr \<Rightarrow> pystr" where
  "start_filter start = u ''Data ge '' @ apostrophe @ start @ apostrophe"

definition end_filter :: "pystr \<Rightarrow> pystr" where
  "end_filter endd = u ''Data le '' @ apostrophe @ endd @ apostrophe"

definition create_query_url ::
  "pystr \<Rightarrow> pystr list option \<Rightarrow> pystr option \<Rightarrow> pystr option \<Rightarrow> error + pystr" where
  "create_query_url frequency Indicators start endd =
     (case map_of urls_dict frequency of
        None \<Rightarrow> Inl (Exception (u ''Frequency doesn't exist''))
      | Some url_base \<Rightarrow>
          (let filters = [];
               filters = (if truthy Indicators then filters @ [indic_filter (the Indicators)] else filters);
               filters = (if truthy start then filters @ [start_filter (the start)] else filters);
               filters = (if truthy endd then filters @ [end_filter (the endd)] else filters);
               filters_string = replace (join (u '' and '') filters) (u '' '') (u ''%20'');
               query = u ''?$top=100000000&'' @ u ''$filter='' @ filters_string @ u ''&''
                       @ u ''$format=text/csv&'' @ u ''$select='' @ select;
               url = url_base @ query;
               url = replace (replace (replace url a_circumflex (u ''%C3%A2''))
                                c_cedilla_a_tilde (u ''%C3%A7%C3%A3o''))
                       i_acute (u ''%C3%AD'')
           in Inr url))"

section \<open>Numbers, dates and tables\<close>

text \<open>
  A pandas number is a float. The model keeps the special values of a float (the missing
  marker NaN and the two infinities) and is exact on finite values: a finite float is a
  real, with no rounding and no overflow, and zero has no sign. This is the reading the
  specification takes when it says "within floating tolerance".
\<close>

datatype fval = NaN | NegInf | Fin real | PosInf

fun fadd :: "fval \<Rightarrow> fval \<Rightarrow> fval" where
  "fadd NaN y = NaN"
| "fadd x NaN = NaN"
| "fadd (Fin a) (Fin b) = Fin (a + b)"
| "fadd PosInf NegInf = NaN"
| "fadd NegInf PosInf = NaN"
| "fadd PosInf y = PosInf"
| "fadd NegInf y = NegInf"
| "fadd (Fin a) y = y"

fun fneg :: "fval \<Rightarrow> fval" where
  "fneg NaN = NaN"
| "fneg NegInf = PosInf"
| "fneg (Fin a) = Fin (- a)"
| "fneg PosInf = NegInf"

definition fsub :: "fval \<Rightarrow> fval \<Rightarrow> fval" where
  "fsub x y = fadd x (fneg y)"

text \<open>The sign of a value that is not NaN: \<open>-1\<close>, \<open>0\<close> or \<open>1\<close>.\<close>

fun fsgn :: "fval \<Rightarrow> real" where
  "fsgn NaN = 0"
| "fsgn NegInf = - 1"
| "fsgn (Fin a) = sgn a"
| "fsgn PosInf = 1"

definition signed_inf :: "real \<Rightarrow> fval" where
  "signed_inf s = (if s < 0 then NegInf else PosInf)"

fun fmul :: "fval \<Rightarrow> fval \<Rightarrow> fval" where
  "fmul NaN y = NaN"
| "fmul x NaN = NaN"
| "fmul (Fin a) (Fin b) = Fin (a * b)"
| "fmul x y = (if fsgn x * fsgn y = 0 then NaN else signed_inf (fsgn x * fsgn y))"

fun fdiv :: "fval \<Rightarrow> fval \<Rightarrow> fval" where
  "fdiv NaN y = NaN"
| "fdiv x NaN = NaN"
| "fdiv (Fin a) (Fin b) =
     (if b \<noteq> 0 then Fin (a / b) else if a = 0 then NaN else signed_inf a)"
| "fdiv (Fin a) y = Fin 0"
| "fdiv x (Fin b) = signed_inf (if b < 0 then - fsgn x else fsgn x)"
| "fdiv x y = NaN"

text \<open>A calendar day \<open>(year, month, day)\<close>, ordered lexicographically.\<close>

type_synonym date = "nat \<times> nat \<times> nat"

text \<open>
  A cell of a table read from CSV or produced by date parsing: a string, a number, a
  timestamp (a day, at midnight) or the missing timestamp NaT.
\<close>

datatype cell = Str pystr | Num fval | Ts date | NaT

fun isna :: "cell \<Rightarrow> bool" where
  "isna (Num NaN) = True"
| "isna NaT = True"
| "isna c = False"

fun ts_cell :: "date option \<Rightarrow> cell" where
  "ts_cell None = NaT"
| "ts_cell (Some d) = Ts d"

text \<open>
  A DataFrame has one row axis (\<open>index\<close>) and named columns, each as long as the axis.
  A Series is a named column with its own axis, kept as (label, value) rows.
\<close>

record ('l, 'v) frame =
  index :: "'l list"
  columns :: "(pystr \<times> 'v list) list"

datatype ('l, 'v) pandas = Series pystr "('l \<times> 'v) list" | DataFrame "('l, 'v) frame"

definition empty_frame :: "('l, 'v) frame" where
  "empty_frame = \<lparr>index = [], columns = []\<rparr>"

text \<open>Sequencing of fallible steps: the first exception aborts.\<close>

fun bind_err :: "error + 'a \<Rightarrow> ('a \<Rightarrow> error + 'b) \<Rightarrow> error + 'b" where
  "bind_err (Inl e) f = Inl e"
| "bind_err (Inr x) f = f x"

fun traverse :: "('a \<Rightarrow> error + 'b) \<Rightarrow> 'a list \<Rightarrow> error + 'b list" where
  "traverse f [] = Inr []"
| "traverse f (x # xs) = bind_err (f x) (\<lambda>y. bind_err (traverse f xs) (\<lambda>ys. Inr (y # ys)))"

text \<open>\<open>df[key]\<close> and \<open>df[key] = values\<close> on a frame whose column names are distinct.\<close>

definition getitem :: "('l, 'v) frame \<Rightarrow> pystr \<Rightarrow> error + 'v list" where
  "getitem df key = (case map_of (columns df) key of None \<Rightarrow> Inl KeyError | Some col \<Rightarrow> Inr col)"

definition setitem :: "('l, 'v) frame \<Rightarrow> pystr \<Rightarrow> 'v list \<Rightarrow> error + ('l, 'v) frame" where
  "setitem df key vals =
     (if length vals \<noteq> length (index df) then Inl ValueError
      else if key \<in> fst ` set (columns df)
      then Inr (df\<lparr>columns := map (\<lambda>(n, col). if n = key then (n, vals) else (n, col)) (columns df)\<rparr>)
      else Inr (df\<lparr>columns := columns df @ [(key, vals)]\<rparr>))"

text \<open>\<open>str(n)\<close> for an integer: its decimal digits.\<close>

function str_nat :: "nat \<Rightarrow> pystr" where
  "str_nat n = (if n < 10 then [48 + n] else str_nat (n div 10) @ [48 + n mod 10])"
  by pat_completeness auto
termination
  by (relation "measure (\<lambda>n. n)") auto

definition str_int :: "int \<Rightarrow> pystr" where
  "str_int i = (if i < 0 then 45 # str_nat (nat (- i)) else str_nat (nat i))"

section \<open>State and collaborators\<close>

text \<open>
  The state a call can change: the store of list objects the caller holds (a list is
  passed by reference, so its address is what a function receives) and the URLs requested
  from the network so far, in order.
\<close>

record state =
  heap :: "nat \<Rightarrow> pystr list"
  requests :: "pystr list"

text \<open>
  What the source leaves to pandas and the network, taken as parameters:
  \<^item> \<open>read_csv\<close>: the HTTP GET and CSV parse of a URL with a separator and a decimal mark,
    which may depend on the requests made before;
  \<^item> \<open>to_datetime\<close>: parsing a column with an optional format (\<open>None\<close> in the result is NaT);
  \<^item> \<open>other_period\<close>, \<open>other_bound\<close>: parsing of period and slice-bound strings that are
    not in the canonical shapes modelled below;
  \<^item> \<open>unsorted_slice\<close>: label slicing of an axis that is neither increasing nor strictly
    decreasing, as positions;
  \<^item> \<open>other_decimal\<close>: the decimal digits of Unicode beyond \<open>0\<close> to \<open>9\<close>;
  \<^item> \<open>joined_axis\<close>: the order in which an outer join lists the labels of two axes.
\<close>

record env =
  read_csv :: "pystr list \<Rightarrow> pystr \<Rightarrow> pystr \<Rightarrow> pystr \<Rightarrow> error + (nat, cell) frame"
  to_datetime :: "pystr option \<Rightarrow> cell list \<Rightarrow> error + date option list"
  other_period :: "pystr \<Rightarrow> error + date"
  other_bound :: "pystr \<Rightarrow> error + date \<times> date"
  unsorted_slice :: "date option list \<Rightarrow> date option \<Rightarrow> date option \<Rightarrow> error + nat list"
  other_decimal :: "nat \<Rightarrow> bool"
  joined_axis :: "date option list \<Rightarrow> date option list \<Rightarrow> date option list"

section \<open>Label slicing\<close>

text \<open>
  \<open>.loc[slice(start, end)]\<close> on an axis of timestamps. A bound is \<open>None\<close> or a string.
  A string names a period of days: its first day bounds a slice from below, its last day
  from above. The shape \<open>yyyy-mm-dd\<close> (a valid day within the range of a timestamp)
  names that one day; any other string is left to \<open>other_bound\<close>.
\<close>

definition ascii_digit :: "nat \<Rightarrow> bool" where
  "ascii_digit c = (48 \<le> c \<and> c \<le> 57)"

definition digits_value :: "pystr \<Rightarrow> nat" where
  "digits_value ds = foldl (\<lambda>acc c. 10 * acc + (c - 48)) 0 ds"

definition leap_year :: "nat \<Rightarrow> bool" where
  "leap_year y = (y mod 4 = 0 \<and> (y mod 100 \<noteq> 0 \<or> y mod 400 = 0))"

definition days_in_month :: "nat \<Rightarrow> nat \<Rightarrow> nat" where
  "days_in_month y m =
     (if m = 2 then (if leap_year y then 29 else 28)
      else if m \<in> {4, 6, 9, 11} then 30 else 31)"

definition timestamp_year :: "nat \<Rightarrow> bool" where
  "timestamp_year y = (1678 \<le> y \<and> y \<le> 2261)"

fun iso_day :: "pystr \<Rightarrow> date option" where
  "iso_day [y1, y2, y3, y4, h1, m1, m2, h2, d1, d2] =
     (let y = digits_value [y1, y2, y3, y4]; m = digits_value [m1, m2]; d = digits_value [d1, d2]
      in if (\<forall>c \<in> set [y1, y2, y3, y4, m1, m2, d1, d2]. ascii_digit c) \<and> h1 = 45 \<and> h2 = 45
            \<and> timestamp_year y \<and> 1 \<le> m \<and> m \<le> 12 \<and> 1 \<le> d \<and> d \<le> days_in_month y m
         then Some (y, m, d) else None)"
| "iso_day s = None"

definition parse_bound :: "env \<Rightarrow> pystr \<Rightarrow> error + date \<times> date" where
  "parse_bound E s = (case iso_day s of Some d \<Rightarrow> Inr (d, d) | None \<Rightarrow> other_bound E s)"

definition lower_bound :: "env \<Rightarrow> pystr option \<Rightarrow> error + date option" where
  "lower_bound E start =
     (case start of None \<Rightarrow> Inr None
      | Some s \<Rightarrow> bind_err (parse_bound E s) (\<lambda>(first, last). Inr (Some first)))"

definition upper_bound :: "env \<Rightarrow> pystr option \<Rightarrow> error + date option" where
  "upper_bound E endd =
     (case endd of None \<Rightarrow> Inr None
      | Some s \<Rightarrow> bind_err (parse_bound E s) (\<lambda>(first, last). Inr (Some last)))"

text \<open>
  An axis is increasing when it holds no NaT and its days are in non-decreasing order.
  On such an axis the slice is positional: it starts at the number of labels before the
  lower bound and stops at the number of labels up to the upper bound (binary search
  from the left and from the right).
\<close>

definition increasing :: "date option list \<Rightarrow> bool" where
  "increasing idx = (None \<notin> set idx \<and> sorted (map the idx))"

definition left_position :: "date option list \<Rightarrow> date option \<Rightarrow> nat" where
  "left_position idx lo =
     (case lo of None \<Rightarrow> 0 | Some a \<Rightarrow> length (takeWhile (\<lambda>d. the d < a) idx))"

definition right_position :: "date option list \<Rightarrow> date option \<Rightarrow> nat" where
  "right_position idx hi =
     (case hi of None \<Rightarrow> length idx | Some b \<Rightarrow> length (takeWhile (\<lambda>d. the d \<le> b) idx))"

text \<open>
  An axis is descending when it has more than one label, no NaT and strictly decreasing
  days. There pandas swaps the two ends of a bound's period and searches the reversed
  axis: the slice starts at the number of labels after the last day of \<open>start\<close> and stops
  at the number of labels down to the first day of \<open>end\<close>, so it runs from \<open>start\<close> down
  to \<open>end\<close>.
\<close>

definition descending :: "date option list \<Rightarrow> bool" where
  "descending idx = (1 < length idx \<and> None \<notin> set idx \<and> sorted_wrt (\<lambda>a b. b < a) (map the idx))"

definition left_position_desc :: "date option list \<Rightarrow> date option \<Rightarrow> nat" where
  "left_position_desc idx from =
     (case from of None \<Rightarrow> 0 | Some a \<Rightarrow> length (takeWhile (\<lambda>d. a < the d) idx))"

definition right_position_desc :: "date option list \<Rightarrow> date option \<Rightarrow> nat" where
  "right_position_desc idx downto =
     (case downto of None \<Rightarrow> length idx | Some b \<Rightarrow> length (takeWhile (\<lambda>d. b \<le> the d) idx))"

definition slice_positions ::
  "env \<Rightarrow> date option list \<Rightarrow> pystr option \<Rightarrow> pystr option \<Rightarrow> error + nat list" where
  "slice_positions E idx start endd =
     (if start = None \<and> endd = None then Inr [0..<length idx]
      else if descending idx
      then bind_err (upper_bound E start) (\<lambda>from. bind_err (lower_bound E endd) (\<lambda>downto.
             Inr [left_position_desc idx from..<right_position_desc idx downto]))
      else bind_err (lower_bound E start) (\<lambda>lo. bind_err (upper_bound E endd) (\<lambda>hi.
             if increasing idx then Inr [left_position idx lo..<right_position idx hi]
             else unsorted_slice E idx lo hi)))"

definition take_positions :: "nat list \<Rightarrow> 'a list \<Rightarrow> 'a list" where
  "take_positions ps xs = map (\<lambda>p. xs ! p) (filter (\<lambda>p. p < length xs) ps)"

definition frame_loc ::
  "env \<Rightarrow> (date option, 'v) frame \<Rightarrow> pystr option \<Rightarrow> pystr option \<Rightarrow> error + (date option, 'v) frame" where
  "frame_loc E df start endd =
     bind_err (slice_positions E (index df) start endd) (\<lambda>ps.
       Inr \<lparr>index = take_positions ps (index df),
            columns = map (\<lambda>(n, col). (n, take_positions ps col)) (columns df)\<rparr>)"

section \<open>Fetching one series\<close>

datatype return_type = AsSeries | AsDataFrame

text \<open>
  Lines 33 to 36 of \<open>get_series\<close>, on the table that \<open>read_csv\<close> returned. Renaming the
  columns to \<open>[date_column, name]\<close> raises unless there are exactly two. When both names
  are equal, \<open>df[date_column]\<close> is a table of two columns and \<open>to_datetime\<close> refuses to
  assemble dates from it.
\<close>

definition series_of_frame ::
  "env \<Rightarrow> pystr \<Rightarrow> pystr option \<Rightarrow> pystr option \<Rightarrow> return_type \<Rightarrow> pystr \<Rightarrow> (nat, cell) frame
   \<Rightarrow> error + (date option, cell) pandas" where
  "series_of_frame E name start endd rt date_column df =
     (if length (columns df) \<noteq> 2 then Inl ValueError
      else if date_column = name then Inl ValueError
      else bind_err (to_datetime E (Some (u ''%d/%m/%Y'')) (snd (columns df ! 0))) (\<lambda>dates.
           if length dates \<noteq> length (index df) then Inl ValueError
           else bind_err (slice_positions E dates start endd) (\<lambda>ps.
             let rows = take_positions ps (zip dates (snd (columns df ! 1)))
             in Inr (case rt of
                       AsSeries \<Rightarrow> Series name rows
                     | AsDataFrame \<Rightarrow> DataFrame \<lparr>index = map fst rows, columns = [(name, map snd rows)]\<rparr>))))"

definition series_url :: "int \<Rightarrow> pystr" where
  "series_url code = u ''http://api.bcb.gov.br/dados/serie/bcdata.sgs.'' @ str_int code @ u ''/dados?formato=csv''"

definition get_series ::
  "env \<Rightarrow> int \<Rightarrow> pystr \<Rightarrow> pystr option \<Rightarrow> pystr option \<Rightarrow> return_type \<Rightarrow> pystr \<Rightarrow> state
   \<Rightarrow> (error + (date option, cell) pandas) \<times> state" where
  "get_series E code name start endd rt date_column st =
     (let url = series_url code;
          df = read_csv E (requests st) url (u '';'') (u '','')
      in (bind_err df (series_of_frame E name start endd rt date_column),
          st\<lparr>requests := requests st @ [url]\<rparr>))"

section \<open>Joining columns\<close>

text \<open>
  \<open>pd.concat([result, x], axis=1)\<close>: an outer join on the row axis. The joined axis of
  two equal axes, or of an axis and an empty one, is the axis itself; otherwise it lists
  the labels of both in the order \<open>join_axis\<close> gives. A table whose axis is the joined one
  is kept as it is; any other table is laid out on the joined axis, which needs its own
  labels to be distinct, with the missing marker where it has no such label.
\<close>

fun as_frame :: "('l, 'v) pandas \<Rightarrow> ('l, 'v) frame" where
  "as_frame (Series name rows) = \<lparr>index = map fst rows, columns = [(name, map snd rows)]\<rparr>"
| "as_frame (DataFrame df) = df"

definition reindex :: "'v \<Rightarrow> 'l list \<Rightarrow> 'l list \<Rightarrow> 'v list \<Rightarrow> 'v list" where
  "reindex missing old new col =
     map (\<lambda>l. case map_of (zip old col) l of None \<Rightarrow> missing | Some v \<Rightarrow> v) new"

definition outer_axis :: "('l list \<Rightarrow> 'l list \<Rightarrow> 'l list) \<Rightarrow> 'l list \<Rightarrow> 'l list \<Rightarrow> 'l list" where
  "outer_axis join_axis a b =
     (if a = b \<or> b = [] then a else if a = [] then b else join_axis a b)"

definition lay_out ::
  "'v \<Rightarrow> 'l list \<Rightarrow> ('l, 'v) frame \<Rightarrow> error + (pystr \<times> 'v list) list" where
  "lay_out missing new df =
     (if index df = new then Inr (columns df)
      else if distinct (index df)
      then Inr (map (\<lambda>(n, col). (n, reindex missing (index df) new col)) (columns df))
      else Inl InvalidIndexError)"

definition concat_axis1 ::
  "('l list \<Rightarrow> 'l list \<Rightarrow> 'l list) \<Rightarrow> 'v \<Rightarrow> ('l, 'v) frame \<Rightarrow> ('l, 'v) pandas \<Rightarrow> error + ('l, 'v) frame" where
  "concat_axis1 join_axis missing result x =
     (let new = outer_axis join_axis (index result) (index (as_frame x))
      in bind_err (lay_out missing new result) (\<lambda>left.
         bind_err (lay_out missing new (as_frame x)) (\<lambda>right.
           Inr \<lparr>index = new, columns = left @ right\<rparr>)))"

section \<open>Fetching several series\<close>

text \<open>The loop of \<open>get_multiple_series\<close>: one \<open>get_series\<close> call per pair, joined in order.\<close>

fun fetch_all ::
  "env \<Rightarrow> (int \<times> pystr) list \<Rightarrow> (date option, cell) frame \<Rightarrow> state
   \<Rightarrow> (error + (date option, cell) frame) \<times> state" where
  "fetch_all E [] result st = (Inr result, st)"
| "fetch_all E ((code, name) # rest) result st =
     (case get_series E code name None None AsDataFrame (u ''Data'') st of
        (Inl e, st') \<Rightarrow> (Inl e, st')
      | (Inr series, st') \<Rightarrow>
          (case concat_axis1 (joined_axis E) (Num NaN) result series of
             Inl e \<Rightarrow> (Inl e, st')
           | Inr result' \<Rightarrow> fetch_all E rest result' st'))"

text \<open>
  Lines 54 to 61: the local variable \<open>name_list\<close> after the length check, and the
  state. \<open>name_list[:n1]\<close> builds a new list and rebinds the local variable;
  \<open>name_list.extend(...)\<close> changes the list object the caller passed, at its address.
\<close>

definition name_complete :: "nat \<Rightarrow> nat \<Rightarrow> pystr list" where
  "name_complete n1 n2 = map (\<lambda>i. u ''unnamed_'' @ str_nat i) [1..<n1 - n2 + 1]"

definition reconcile :: "int list \<Rightarrow> nat \<Rightarrow> state \<Rightarrow> pystr list \<times> state" where
  "reconcile code_list name_list st =
     (let n1 = length code_list; n2 = length (heap st name_list)
      in if n1 < n2 then (take n1 (heap st name_list), st)
         else if n1 > n2
         then (let st' = st\<lparr>heap := (heap st)(name_list := heap st name_list @ name_complete n1 n2)\<rparr>
               in (heap st' name_list, st'))
         else (heap st name_list, st))"

definition get_multiple_series ::
  "env \<Rightarrow> int list \<Rightarrow> nat \<Rightarrow> pystr option \<Rightarrow> pystr option \<Rightarrow> state
   \<Rightarrow> (error + (date option, cell) frame) \<times> state" where
  "get_multiple_series E code_list name_list start endd st =
     (case reconcile code_list name_list st of
        (names, st1) \<Rightarrow>
          (case fetch_all E (zip code_list names) empty_frame st1 of
             (Inl e, st2) \<Rightarrow> (Inl e, st2)
           | (Inr result, st2) \<Rightarrow> (frame_loc E result start endd, st2)))"

section \<open>Market expectations\<close>

text \<open>
  \<open>'Q' + column\<close>. A column read from CSV holds strings only when its type is the
  generic one, which is the case when it has a string or no row at all. There a string
  gets the prefix, a missing cell stays missing and any other cell raises; on a column
  of another type the addition raises. A missing cell is \<open>None\<close> in the result.
\<close>

fun is_Str :: "cell \<Rightarrow> bool" where
  "is_Str (Str s) = True"
| "is_Str c = False"

fun radd_cell :: "pystr \<Rightarrow> cell \<Rightarrow> error + pystr option" where
  "radd_cell q (Str s) = Inr (Some (q @ s))"
| "radd_cell q c = (if isna c then Inr None else Inl TypeError)"

definition radd_str :: "pystr \<Rightarrow> cell list \<Rightarrow> error + pystr option list" where
  "radd_str q col =
     (if col \<noteq> [] \<and> \<not> (\<exists>c \<in> set col. is_Str c) then Inl TypeError
      else traverse (radd_cell q) col)"

text \<open>
  \<open>re.sub(r'(Q\d) (\d+)', r'\2-\1', s)\<close>: at the leftmost position where \<open>Q\<close>, a
  decimal digit, a space and a longest run of decimal digits start, the run, a hyphen
  and the first two characters are written, and the search goes on behind the run.
  \<open>\d\<close> is any decimal digit of Unicode.
\<close>

definition re_digit :: "env \<Rightarrow> nat \<Rightarrow> bool" where
  "re_digit E c = (ascii_digit c \<or> other_decimal E c)"

function re_sub_quarter :: "env \<Rightarrow> pystr \<Rightarrow> pystr" where
  "re_sub_quarter E [] = []"
| "re_sub_quarter E [a] = [a]"
| "re_sub_quarter E [a, b] = [a, b]"
| "re_sub_quarter E [a, b, c] = [a, b, c]"
| "re_sub_quarter E (q # d # sp # y # rest) =
     (if q = 81 \<and> re_digit E d \<and> sp = 32 \<and> re_digit E y
      then (y # takeWhile (re_digit E) rest) @ u ''-'' @ [q, d]
           @ re_sub_quarter E (dropWhile (re_digit E) rest)
      else q # re_sub_quarter E (d # sp # y # rest))"
  by pat_completeness auto
termination
  by (relation "measure (\<lambda>(E, s). length s)")
     (auto simp: less_Suc_eq_le intro: le_trans [OF length_dropWhile_le])

text \<open>
  \<open>pd.PeriodIndex(qs, freq='Q').to_timestamp()\<close>, cell by cell: a missing cell gives
  NaT; a string names a quarter, which becomes the first day of that quarter. The shape
  \<open>yyyy-Qn\<close> with \<open>n\<close> from 1 to 4 (and a year within the range of a timestamp) names
  quarter \<open>n\<close> of that year; any other string is left to \<open>other_period\<close>.
\<close>

fun quarter_period :: "pystr \<Rightarrow> (nat \<times> nat) option" where
  "quarter_period [y1, y2, y3, y4, h, q, n] =
     (let y = digits_value [y1, y2, y3, y4]
      in if (\<forall>c \<in> set [y1, y2, y3, y4]. ascii_digit c) \<and> h = 45 \<and> q = 81
            \<and> 49 \<le> n \<and> n \<le> 52 \<and> timestamp_year y
         then Some (y, n - 48) else None)"
| "quarter_period s = None"

definition quarter_start :: "nat \<times> nat \<Rightarrow> date" where
  "quarter_start p = (case p of (y, n) \<Rightarrow> (y, 3 * (n - 1) + 1, 1))"

definition period_start :: "env \<Rightarrow> pystr option \<Rightarrow> error + date option" where
  "period_start E c =
     (case c of
        None \<Rightarrow> Inr None
      | Some s \<Rightarrow> (case quarter_period s of
                     Some p \<Rightarrow> Inr (Some (quarter_start p))
                   | None \<Rightarrow> bind_err (other_period E s) (\<lambda>d. Inr (Some d))))"

text \<open>Lines 123 to 135 of \<open>get_market_expectations\<close>, on the table that \<open>read_csv\<close> returned.\<close>

definition parse_reference ::
  "env \<Rightarrow> pystr \<Rightarrow> (nat, cell) frame \<Rightarrow> error + (nat, cell) frame" where
  "parse_reference E fmt df =
     bind_err (getitem df (u ''DataReferencia'')) (\<lambda>col.
     bind_err (to_datetime E (Some fmt) col) (\<lambda>dates.
       setitem df (u ''DataReferencia'') (map ts_cell dates)))"

definition quarter_strings :: "env \<Rightarrow> cell list \<Rightarrow> error + pystr option list" where
  "quarter_strings E col =
     bind_err (radd_str (u ''Q'') col) (\<lambda>qs.
       Inr (map (map_option (re_sub_quarter E))
              (map (map_option (\<lambda>s. replace s (u ''/'') (u '' ''))) qs)))"

definition parse_expectations ::
  "env \<Rightarrow> pystr \<Rightarrow> (nat, cell) frame \<Rightarrow> error + (nat, cell) frame" where
  "parse_expectations E frequency df0 =
     bind_err (getitem df0 (u ''Data'')) (\<lambda>col.
     bind_err (to_datetime E None col) (\<lambda>dates.
     bind_err (setitem df0 (u ''Data'') (map ts_cell dates)) (\<lambda>df.
       if frequency = u ''monthly'' then parse_reference E (u ''%m/%Y'') df
       else if frequency = u ''annual'' then parse_reference E (u ''%Y'') df
       else if frequency = u ''quarterly''
       then bind_err (getitem df (u ''DataReferencia'')) (\<lambda>col.
            bind_err (quarter_strings E col) (\<lambda>qs.
            bind_err (traverse (period_start E) qs) (\<lambda>dates.
              setitem df (u ''DataReferencia'') (map ts_cell dates))))
       else Inr df)))"

definition get_market_expectations ::
  "env \<Rightarrow> pystr \<Rightarrow> pystr list option \<Rightarrow> pystr option \<Rightarrow> pystr option \<Rightarrow> state
   \<Rightarrow> (error + (nat, cell) frame) \<times> state" where
  "get_market_expectations E frequency Indicators start endd st =
     (case create_query_url frequency Indicators start endd of
        Inl e \<Rightarrow> (Inl e, st)
      | Inr url \<Rightarrow>
          (bind_err (read_csv E (requests st) url (u '','') (u '','')) (parse_expectations E frequency),
           st\<lparr>requests := requests st @ [url]\<rparr>))"

section \<open>Series transforms\<close>

text \<open>
  \<open>series.dropna()\<close> keeps the rows whose value is not NaN; \<open>cumprod\<close> is the running
  product, which after \<open>dropna\<close> has no missing input to skip.
\<close>

definition dropna :: "('l \<times> fval) list \<Rightarrow> ('l \<times> fval) list" where
  "dropna rows = filter (\<lambda>(l, v). v \<noteq> NaN) rows"

fun cumprod_from :: "fval \<Rightarrow> ('l \<times> fval) list \<Rightarrow> ('l \<times> fval) list" where
  "cumprod_from acc [] = []"
| "cumprod_from acc ((l, v) # rows) = (l, fmul acc v) # cumprod_from (fmul acc v) rows"

fun cumprod :: "('l \<times> fval) list \<Rightarrow> ('l \<times> fval) list" where
  "cumprod [] = []"
| "cumprod ((l, v) # rows) = (l, v) # cumprod_from v rows"

text \<open>The inner function \<open>_mom2index\<close>; \<open>index.iloc[0]\<close> raises on a series with no row.\<close>

definition inner_mom2index :: "pystr \<Rightarrow> ('l \<times> fval) list \<Rightarrow> error + ('l, fval) pandas" where
  "inner_mom2index name rows =
     (let index = cumprod (map (\<lambda>(l, v). (l, fadd v (Fin 1))) (dropna rows))
      in case index of
           [] \<Rightarrow> Inl IndexError
         | (l0, v0) # rest \<Rightarrow> Inr (Series name (map (\<lambda>(l, v). (l, fdiv v v0)) index)))"

text \<open>
  The loop over \<open>data.columns\<close>; with distinct column names \<open>data[c]\<close> is the column
  named \<open>c\<close> on the axis of the table.
\<close>

fun mom2index_columns ::
  "('l list \<Rightarrow> 'l list \<Rightarrow> 'l list) \<Rightarrow> 'l list \<Rightarrow> (pystr \<times> fval list) list \<Rightarrow> ('l, fval) frame
   \<Rightarrow> error + ('l, fval) frame" where
  "mom2index_columns join_axis idx [] acc = Inr acc"
| "mom2index_columns join_axis idx ((c, col) # cols) acc =
     bind_err (inner_mom2index c (zip idx col)) (\<lambda>rebased.
     bind_err (concat_axis1 join_axis NaN acc rebased) (\<lambda>acc'.
       mom2index_columns join_axis idx cols acc'))"

fun mom2index ::
  "('l list \<Rightarrow> 'l list \<Rightarrow> 'l list) \<Rightarrow> ('l, fval) pandas \<Rightarrow> error + ('l, fval) pandas" where
  "mom2index join_axis (Series name rows) = inner_mom2index name rows"
| "mom2index join_axis (DataFrame df) =
     bind_err (mom2index_columns join_axis (index df) (columns df) empty_frame) (\<lambda>index.
       Inr (DataFrame index))"

text \<open>
  \<open>series.shift(12)\<close> moves every value twelve positions down the axis and fills the
  first twelve with NaN; the division pairs each value with the shifted one on the same
  label.
\<close>

definition shift12 :: "fval list \<Rightarrow> fval list" where
  "shift12 vals = replicate (min 12 (length vals)) NaN @ take (length vals - 12) vals"

definition yoy_values :: "fval list \<Rightarrow> fval list" where
  "yoy_values vals = map (\<lambda>(a, b). fsub (fdiv a b) (Fin 1)) (zip vals (shift12 vals))"

fun index2yoy :: "('l, fval) pandas \<Rightarrow> ('l, fval) pandas" where
  "index2yoy (Series name rows) = Series name (zip (map fst rows) (yoy_values (map snd rows)))"
| "index2yoy (DataFrame df) =
     DataFrame (df\<lparr>columns := map (\<lambda>(n, col). (n, yoy_values col)) (columns df)\<rparr>)"

definition mom2yoy ::
  "('l list \<Rightarrow> 'l list \<Rightarrow> 'l list) \<Rightarrow> ('l, fval) pandas \<Rightarrow> error + ('l, fval) pandas" where
  "mom2yoy join_axis series = bind_err (mom2index join_axis series) (\<lambda>index. Inr (index2yoy index))"

section \<open>The specification's wording of the query URL\<close>

text \<open>
  The URL as the specification describes it, to be compared with \<open>create_query_url\<close>.
  A clause is present when its argument is given and not empty. Spaces are encoded
  character by character, and the accented substrings are escaped in one pass from
  the left.
\<close>

definition spec_present_clauses ::
  "pystr list option \<Rightarrow> pystr option \<Rightarrow> pystr option \<Rightarrow> pystr list" where
  "spec_present_clauses Indicators start endd =
     (case Indicators of
        Some (i # others) \<Rightarrow>
          [join (u '' or '') (map (\<lambda>i. u ''Indicador eq '' @ [39] @ i @ [39]) (i # others))]
      | _ \<Rightarrow> [])
     @ (case start of Some (c # cs) \<Rightarrow> [u ''Data ge '' @ [39] @ c # cs @ [39]] | _ \<Rightarrow> [])
     @ (case endd of Some (c # cs) \<Rightarrow> [u ''Data le '' @ [39] @ c # cs @ [39]] | _ \<Rightarrow> [])"

definition spec_encode_spaces :: "pystr \<Rightarrow> pystr" where
  "spec_encode_spaces s = concat (map (\<lambda>c. if c = 32 then u ''%20'' else [c]) s)"

fun spec_escape_accents :: "pystr \<Rightarrow> pystr" where
  "spec_escape_accents [] = []"
| "spec_escape_accents (c # cs) =
     (if c = 226 then u ''%C3%A2'' @ spec_escape_accents cs
      else if c = 231 \<and> cs \<noteq> [] \<and> hd cs = 227 then u ''%C3%A7%C3%A3o'' @ spec_escape_accents (tl cs)
      else if c = 237 then u ''%C3%AD'' @ spec_escape_accents cs
      else c # spec_escape_accents cs)"

definition spec_query_url ::
  "pystr \<Rightarrow> pystr list option \<Rightarrow> pystr option \<Rightarrow> pystr option \<Rightarrow> pystr" where
  "spec_query_url base Indicators start endd =
     spec_escape_accents
       (base @ u ''?$top=100000000&$filter=''
        @ spec_encode_spaces (join (u '' and '') (spec_present_clauses Indicators start endd))
        @ u ''&$format=text/csv&$select=Indicador,Data,DataReferencia,Media,Mediana,DesvioPadrao,Minimo,Maximo,numeroRespondentes,baseCalculo'')"

definition valid_frequencies :: "pystr list" where
  "valid_frequencies =
     [u ''annual'', u ''quarterly'', u ''monthly'', u ''inflation-12-months'',
      u ''top5s-monthly'', u ''top5s-annual'', u ''institutions'']"

text \<open>Replacing one character by a string, as a map over the characters.\<close>

definition subst_char :: "nat \<Rightarrow> pystr \<Rightarrow> pystr \<Rightarrow> pystr" where
  "subst_char c new s = concat (map (\<lambda>x. if x = c then new else [x]) s)"




definition valid_day :: "date \<Rightarrow> bool" where
  "valid_day day =
     (case day of (y, m, d) \<Rightarrow>
        timestamp_year y \<and> 1 \<le> m \<and> m \<le> 12 \<and> 1 \<le> d \<and> d \<le> days_in_month y m)"



section \<open>The specification's wording of the index\<close>







section \<open>The specification's wording of the quarters\<close>

text \<open>
  A cell of the reference column as the service writes it, \<open>n/year\<close> with the digit \<open>n\<close> of
  the quarter, or a missing cell; the first day of that quarter; and the quarters that
  a timestamp can hold.
\<close>

fun raw_quarter :: "(nat \<times> pystr) option \<Rightarrow> cell" where
  "raw_quarter None = Num NaN"
| "raw_quarter (Some (n, year)) = Str (n # u ''/'' @ year)"

fun quarter_day :: "(nat \<times> pystr) option \<Rightarrow> cell" where
  "quarter_day None = NaT"
| "quarter_day (Some (n, year)) = Ts (digits_value year, 3 * (n - 49) + 1, 1)"

definition quarter_value :: "nat \<times> pystr \<Rightarrow> bool" where
  "quarter_value q =
     (case q of (n, year) \<Rightarrow>
        49 \<le> n \<and> n \<le> 52 \<and> length year = 4 \<and> (\<forall>c \<in> set year. ascii_digit c)
        \<and> timestamp_year (digits_value year))"

section \<open>Inputs for the examples\<close>

text \<open>A world in which every collaborator fails, and a state with no request made.\<close>

definition demo_env :: env where
  "demo_env =
     \<lparr>read_csv = (\<lambda>history url sep decimal. Inl (External 0)),
      to_datetime = (\<lambda>fmt col. Inl (External 1)),
      other_period = (\<lambda>s. Inl (External 2)),
      other_bound = (\<lambda>s. Inl (External 3)),
      unsorted_slice = (\<lambda>idx lo hi. Inl KeyError),
      other_decimal = (\<lambda>c. False),
      joined_axis = (\<lambda>a b. a @ filter (\<lambda>l. l \<notin> set a) b)\<rparr>"

definition demo_state :: state where
  "demo_state = \<lparr>heap = (\<lambda>a. []), requests = []\<rparr>"

text \<open>
  A world in which every request succeeds with the same three observations, the caller's
  state with its name list at address 0, and the table of those observations under given
  column names.
\<close>

definition demo_day :: "cell \<Rightarrow> date option" where
  "demo_day c =
     (if c = Str (u ''01/12/2019'') then Some (2019, 12, 1)
      else if c = Str (u ''01/01/2020'') then Some (2020, 1, 1)
      else if c = Str (u ''01/02/2020'') then Some (2020, 2, 1)
      else None)"

definition demo_csv :: "(nat, cell) frame" where
  "demo_csv =
     \<lparr>index = [0, 1, 2],
      columns = [(u ''data'', [Str (u ''01/12/2019''), Str (u ''01/01/2020''), Str (u ''01/02/2020'')]),
                 (u ''valor'', [Num (Fin 1), Num (Fin 2), Num (Fin 3)])]\<rparr>"

definition demo_world :: env where
  "demo_world =
     \<lparr>read_csv = (\<lambda>history url sep decimal. Inr demo_csv),
      to_datetime = (\<lambda>fmt col. Inr (map demo_day col)),
      other_period = (\<lambda>s. Inl (External 2)),
      other_bound = (\<lambda>s. Inl (External 3)),
      unsorted_slice = (\<lambda>idx lo hi. Inl KeyError),
      other_decimal = (\<lambda>c. False),
      joined_axis = (\<lambda>a b. a @ filter (\<lambda>l. l \<notin> set a) b)\<rparr>"



definition caller_state :: "pystr list \<Rightarrow> state" where
  "caller_state names = \<lparr>heap = (\<lambda>a. if a = 0 then names else []), requests = []\<rparr>"

definition demo_table :: "pystr list \<Rightarrow> (date option, cell) frame" where
  "demo_table names =
     \<lparr>index = [Some (2019, 12, 1), Some (2020, 1, 1), Some (2020, 2, 1)],
      columns = map (\<lambda>n. (n, [Num (Fin 1), Num (Fin 2), Num (Fin 3)])) names\<rparr>"

text \<open>A survey answer for the second quarter of 2021, and a world that returns it.\<close>

definition demo_answers :: "(nat, cell) frame" where
  "demo_answers =
     \<lparr>index = [0, 1, 2],
      columns = [(u ''Indicador'', [Str (u ''PIB Total''), Str (u ''PIB Total''), Str (u ''PIB Total'')]),
                 (u ''Data'', [Str (u ''2021-01-04''), Str (u ''2021-01-04''), Str (u ''2021-01-04'')]),
                 (u ''DataReferencia'', [Str (u ''2/2021''), Num NaN, Str (u ''4/2022'')])]\<rparr>"

definition demo_survey :: env where
  "demo_survey =
     \<lparr>read_csv = (\<lambda>history url sep decimal. Inr demo_answers),
      to_datetime = (\<lambda>fmt col. Inr (map (\<lambda>c. Some (2021, 1, 4)) col)),
      other_period = (\<lambda>s. Inl (External 2)),
      other_bound = (\<lambda>s. Inl (External 3)),
      unsorted_slice = (\<lambda>idx lo hi. Inl KeyError),
      other_decimal = (\<lambda>c. False),
      joined_axis = (\<lambda>a b. a @ filter (\<lambda>l. l \<notin> set a) b)\<rparr>"




text \<open>An index series of fourteen months: 100, 101, ..., 113.\<close>

definition demo_index :: "(nat \<times> fval) list" where
  "demo_index = map (\<lambda>t. (t, Fin (real (100 + t)))) [0..<14]"

section \<open>The frequency check\<close>

lemma keys_urls_dict: "map fst urls_dict = valid_frequencies"
  by (simp add: urls_dict_def valid_frequencies_def)

lemma distinct_valid_frequencies: "distinct valid_frequencies"
  by (simp add: valid_frequencies_def u_def)

lemma map_of_urls_dict_None: "(map_of urls_dict f = None) = (f \<notin> set valid_frequencies)"
  by (simp add: map_of_eq_None_iff keys_urls_dict [symmetric])

lemma map_of_urls_dict_Some: "(map_of urls_dict f = Some base) = ((f, base) \<in> set urls_dict)"
  by (simp add: map_of_eq_Some_iff keys_urls_dict distinct_valid_frequencies)

text \<open>
  Claim C4. For each of the seven frequency categories \<open>create_query_url\<close> returns a URL
  and raises nothing. For any other frequency it raises the exception
  "Frequency doesn't exist", whatever the filters are, and \<open>get_market_expectations\<close>
  raises it with the state unchanged: no request has been made.
\<close>

theorem create_query_url_frequency:
  "(frequency \<in> set valid_frequencies \<longrightarrow>
      (\<exists>url. create_query_url frequency Indicators start endd = Inr url))
   \<and> (frequency \<notin> set valid_frequencies \<longrightarrow>
        create_query_url frequency Indicators start endd = Inl (Exception (u ''Frequency doesn't exist''))
        \<and> get_market_expectations E frequency Indicators start endd st
            = (Inl (Exception (u ''Frequency doesn't exist'')), st))"
proof (cases "map_of urls_dict frequency")
  case None
  then have "frequency \<notin> set valid_frequencies" by (simp add: map_of_urls_dict_None)
  with None show ?thesis
    by (simp add: create_query_url_def get_market_expectations_def)
next
  case (Some base)
  then have "frequency \<in> set valid_frequencies"
    using map_of_urls_dict_None [of frequency] by simp
  with Some show ?thesis
    by (simp add: create_query_url_def Let_def)
qed

theorem create_query_url_frequency_witness:
  "u ''monthly'' \<in> set valid_frequencies
   \<and> (\<exists>url. create_query_url (u ''monthly'') None None None = Inr url)
   \<and> u ''weekly'' \<notin> set valid_frequencies
   \<and> create_query_url (u ''weekly'') (Some [u ''IPCA'']) None None = Inl (Exception (u ''Frequency doesn't exist''))
   \<and> get_market_expectations demo_env (u ''weekly'') (Some [u ''IPCA'']) None None demo_state
        = (Inl (Exception (u ''Frequency doesn't exist'')), demo_state)"
proof -
  have a: "u ''monthly'' \<in> set valid_frequencies" by (simp add: valid_frequencies_def)
  have b: "u ''weekly'' \<notin> set valid_frequencies" by (simp add: valid_frequencies_def u_def)
  show ?thesis
    using a b create_query_url_frequency [of "u ''monthly''" None None None demo_env demo_state]
      create_query_url_frequency [of "u ''weekly''" "Some [u ''IPCA'']" None None demo_env demo_state]
    by blast
qed

section \<open>The query URL\<close>

lemma replace_single: "replace s [c] new = subst_char c new s"
  by (induction s) (simp_all add: replace_def subst_char_def)

lemma replace_from_skip:
  "\<forall>x \<in> set pre. x \<noteq> hd old \<Longrightarrow> old \<noteq> [] \<Longrightarrow>
   replace_from old new (pre @ s) = pre @ replace_from old new s"
proof (induction pre)
  case Nil
  then show ?case by simp
next
  case (Cons a pre)
  then have "take (length old) (a # pre @ s) \<noteq> old"
    by (cases old) auto
  with Cons show ?case by simp
qed

lemma subst_char_append: "subst_char c new (a @ b) = subst_char c new a @ subst_char c new b"
  by (simp add: subst_char_def)

lemma subst_char_id: "c \<notin> set s \<Longrightarrow> subst_char c new s = s"
  by (induction s) (auto simp: subst_char_def)

lemma take2_subst:
  "(take 2 (231 # subst_char 226 (u ''%C3%A2'') cs) = [231, 227]) = (cs \<noteq> [] \<and> hd cs = 227)"
  by (cases cs) (auto simp: subst_char_def u_def)

lemma escape_seq:
  "subst_char 237 (u ''%C3%AD'')
     (replace_from [231, 227] (u ''%C3%A7%C3%A3o'') (subst_char 226 (u ''%C3%A2'') s))
   = spec_escape_accents s"
proof (induction s rule: spec_escape_accents.induct)
  case 1
  show ?case by (simp add: subst_char_def)
next
  case (2 c cs)
  let ?A = "u ''%C3%A2''" and ?B = "u ''%C3%A7%C3%A3o''" and ?C = "u ''%C3%AD''"
  have A: "\<forall>x\<in>set ?A. x \<noteq> hd [231, 227::nat]" "237 \<notin> set ?A" by (simp_all add: u_def)
  have B: "237 \<notin> set ?B" by (simp add: u_def)
  consider (a) "c = 226" | (b) "c = 231" "cs \<noteq> []" "hd cs = 227"
    | (b') "c = 231" "\<not> (cs \<noteq> [] \<and> hd cs = 227)"
    | (c) "c = 237" | (d) "c \<noteq> 226" "c \<noteq> 231" "c \<noteq> 237" by blast
  then show ?case
  proof cases
    case a
    have "subst_char 226 ?A (c # cs) = ?A @ subst_char 226 ?A cs"
      using a by (simp add: subst_char_def)
    then show ?thesis using a 2(1) A
      by (simp add: replace_from_skip subst_char_append subst_char_id)
  next
    case b
    then obtain cs' where cs: "cs = 227 # cs'" by (cases cs) auto
    have "subst_char 226 ?A (c # cs) = 231 # 227 # subst_char 226 ?A cs'"
      using b cs by (simp add: subst_char_def)
    then show ?thesis using b cs 2(2) B
      by (simp add: subst_char_append subst_char_id)
  next
    case b'
    have s: "subst_char 226 ?A (c # cs) = 231 # subst_char 226 ?A cs"
      using b' by (simp add: subst_char_def)
    have "take (length [231, 227::nat]) (231 # subst_char 226 ?A cs) \<noteq> [231, 227]"
      using take2_subst [of cs] b' by simp
    then have rf: "replace_from [231, 227] ?B (231 # subst_char 226 ?A cs)
        = 231 # replace_from [231, 227] ?B (subst_char 226 ?A cs)"
      by simp
    have rhs: "spec_escape_accents (c # cs) = 231 # spec_escape_accents cs" using b' by auto
    have ih: "subst_char 237 ?C (replace_from [231, 227] ?B (subst_char 226 ?A cs))
        = spec_escape_accents cs"
      using 2(4) b' by simp
    show ?thesis unfolding s rf rhs ih [symmetric] by (simp add: subst_char_def)
  next
    case c
    have s: "subst_char 226 ?A (c # cs) = 237 # subst_char 226 ?A cs"
      using c by (simp add: subst_char_def)
    show ?thesis using c 2(3) unfolding s by (simp add: subst_char_def)
  next
    case d
    have s: "subst_char 226 ?A (c # cs) = c # subst_char 226 ?A cs"
      using d by (simp add: subst_char_def)
    show ?thesis using d 2(4) unfolding s by (simp add: subst_char_def)
  qed
qed

lemma replace_accents:
  "replace (replace (replace url a_circumflex (u ''%C3%A2'')) c_cedilla_a_tilde (u ''%C3%A7%C3%A3o''))
     i_acute (u ''%C3%AD'') = spec_escape_accents url"
proof -
  have "replace x c_cedilla_a_tilde new = replace_from [231, 227] new x" for x new
    by (simp add: replace_def c_cedilla_a_tilde_def)
  then show ?thesis
    by (simp add: a_circumflex_def i_acute_def replace_single escape_seq)
qed

lemma replace_spaces: "replace s (u '' '') (u ''%20'') = spec_encode_spaces s"
proof -
  have "u '' '' = [32]" by (simp add: u_def)
  then show ?thesis by (simp add: replace_single subst_char_def spec_encode_spaces_def)
qed

lemma query_eq:
  "u ''?$top=100000000&'' @ u ''$filter='' @ fs @ u ''&'' @ u ''$format=text/csv&'' @ u ''$select='' @ select
   = u ''?$top=100000000&$filter='' @ fs
     @ u ''&$format=text/csv&$select=Indicador,Data,DataReferencia,Media,Mediana,DesvioPadrao,Minimo,Maximo,numeroRespondentes,baseCalculo''"
  by (simp add: u_def select_def)

lemma filters_eq:
  "(if truthy endd
    then (if truthy start
          then (if truthy Indicators then [] @ [indic_filter (the Indicators)] else []) @ [start_filter (the start)]
          else (if truthy Indicators then [] @ [indic_filter (the Indicators)] else [])) @ [end_filter (the endd)]
    else (if truthy start
          then (if truthy Indicators then [] @ [indic_filter (the Indicators)] else []) @ [start_filter (the start)]
          else (if truthy Indicators then [] @ [indic_filter (the Indicators)] else [])))
   = spec_present_clauses Indicators start endd"
  by (auto simp: spec_present_clauses_def indic_filter_def start_filter_def end_filter_def apostrophe_def
      split: option.splits list.splits)

text \<open>
  Claim C5. For a frequency of the table and its base URL, \<open>create_query_url\<close> returns
  exactly the base URL, \<open>?$top=100000000&$filter=\<close>, the present filter clauses joined
  by \<open>and\<close> with every space written \<open>%20\<close>, and the fixed format and column list; in
  that string every a-circumflex, every c-cedilla followed by a-tilde and every i-acute
  is replaced by \<open>%C3%A2\<close>, \<open>%C3%A7%C3%A3o\<close> and \<open>%C3%AD\<close>. A clause is present when its
  argument is given and not empty, as the source tests it.
\<close>

theorem create_query_url_spec:
  assumes "(frequency, base) \<in> set urls_dict"
  shows "create_query_url frequency Indicators start endd
         = Inr (spec_query_url base Indicators start endd)"
proof -
  have "map_of urls_dict frequency = Some base"
    using assms by (simp add: map_of_urls_dict_Some)
  then show ?thesis
    unfolding create_query_url_def Let_def filters_eq replace_spaces replace_accents query_eq
    by (simp add: spec_query_url_def)
qed

theorem create_query_url_spec_witness:
  "(u ''monthly'', u ''https://olinda.bcb.gov.br/olinda/servico/Expectativas/versao/v1/odata/ExpectativaMercadoMensais'')
     \<in> set urls_dict
   \<and> create_query_url (u ''monthly'') (Some [u ''IPCA'', [67, 226, 109, 98, 105, 111]]) None (Some (u ''2021-01-01''))
     = Inr (u ''https://olinda.bcb.gov.br/olinda/servico/Expectativas/versao/v1/odata/ExpectativaMercadoMensais?$top=100000000&$filter=Indicador%20eq%20'IPCA'%20or%20Indicador%20eq%20'C%C3%A2mbio'%20and%20Data%20le%20'2021-01-01'&$format=text/csv&$select=Indicador,Data,DataReferencia,Media,Mediana,DesvioPadrao,Minimo,Maximo,numeroRespondentes,baseCalculo'')"
proof -
  have h: "(u ''monthly'', u ''https://olinda.bcb.gov.br/olinda/servico/Expectativas/versao/v1/odata/ExpectativaMercadoMensais'')
     \<in> set urls_dict"
    by (simp add: urls_dict_def)
  have "create_query_url (u ''monthly'') (Some [u ''IPCA'', [67, 226, 109, 98, 105, 111]]) None (Some (u ''2021-01-01''))
     = Inr (spec_query_url
             (u ''https://olinda.bcb.gov.br/olinda/servico/Expectativas/versao/v1/odata/ExpectativaMercadoMensais'')
             (Some [u ''IPCA'', [67, 226, 109, 98, 105, 111]]) None (Some (u ''2021-01-01'')))"
    using create_query_url_spec [OF h] by simp
  then show ?thesis
    using h by (simp add: spec_query_url_def spec_present_clauses_def spec_encode_spaces_def u_def)
qed

section \<open>Year over year\<close>

lemma length_shift12: "length (shift12 vals) = length vals"
  by (simp add: shift12_def)

lemma nth_shift12:
  "t < length vals \<Longrightarrow> shift12 vals ! t = (if 12 \<le> t then vals ! (t - 12) else NaN)"
  by (simp add: shift12_def nth_append)

lemma length_yoy_values: "length (yoy_values vals) = length vals"
  by (simp add: yoy_values_def length_shift12)

lemma fdiv_NaN_right: "fdiv x NaN = NaN"
  by (cases x) simp_all

lemma nth_yoy_values:
  "t < length vals \<Longrightarrow>
   yoy_values vals ! t = (if 12 \<le> t then fsub (fdiv (vals ! t) (vals ! (t - 12))) (Fin 1) else NaN)"
  by (simp add: yoy_values_def length_shift12 nth_shift12 fsub_def fdiv_NaN_right)

text \<open>
  Claim C9. On a series, \<open>index2yoy\<close> keeps the labels, and its value at position \<open>t\<close> is
  \<open>s[t] / s[t - 12] - 1\<close> for every \<open>t\<close> from 12 on and missing for every \<open>t\<close> below 12.
\<close>

theorem index2yoy_positions:
  "\<exists>rows'. index2yoy (Series name rows) = Series name rows'
     \<and> map fst rows' = map fst rows
     \<and> (\<forall>t < length rows.
           snd (rows' ! t) =
             (if 12 \<le> t then fsub (fdiv (snd (rows ! t)) (snd (rows ! (t - 12)))) (Fin 1) else NaN))"
proof -
  let ?rows' = "zip (map fst rows) (yoy_values (map snd rows))"
  have "map fst ?rows' = map fst rows"
    by (simp add: length_yoy_values)
  moreover have "snd (?rows' ! t) =
      (if 12 \<le> t then fsub (fdiv (snd (rows ! t)) (snd (rows ! (t - 12)))) (Fin 1) else NaN)"
    if "t < length rows" for t
    using that by (simp add: length_yoy_values nth_yoy_values)
  ultimately show ?thesis by simp
qed

theorem index2yoy_positions_witness:
  "12 < length demo_index
   \<and> (\<exists>rows'. index2yoy (Series (u ''value'') demo_index) = Series (u ''value'') rows'
         \<and> map fst rows' = map fst demo_index
         \<and> snd (rows' ! 12) = Fin (3 / 25) \<and> snd (rows' ! 3) = NaN)"
proof -
  obtain rows' where r: "index2yoy (Series (u ''value'') demo_index) = Series (u ''value'') rows'"
    and l: "map fst rows' = map fst demo_index"
    and v: "\<forall>t < length demo_index. snd (rows' ! t) =
             (if 12 \<le> t then fsub (fdiv (snd (demo_index ! t)) (snd (demo_index ! (t - 12)))) (Fin 1) else NaN)"
    using index2yoy_positions [of "u ''value''" demo_index] by blast
  have len: "length demo_index = 14" by (simp add: demo_index_def)
  have d: "demo_index ! 12 = (12, Fin 112)" "demo_index ! 0 = (0, Fin 100)"
    by (simp_all add: demo_index_def nth_append)
  have "snd (rows' ! 12) = Fin (3 / 25)"
    using v [rule_format, of 12] len d by (simp add: fsub_def)
  moreover have "snd (rows' ! 3) = NaN"
    using v [rule_format, of 3] len by simp
  ultimately show ?thesis using r l len by auto
qed

text \<open>
  Claim C7. For every series and every table, \<open>mom2yoy\<close> is \<open>index2yoy\<close> applied to the
  result of \<open>mom2index\<close>; where \<open>mom2index\<close> raises, \<open>mom2yoy\<close> raises the same.
\<close>

theorem mom2yoy_composition:
  "mom2yoy join_axis series
   = (case mom2index join_axis series of Inl e \<Rightarrow> Inl e | Inr rebased \<Rightarrow> Inr (index2yoy rebased))"
  by (cases "mom2index join_axis series") (simp_all add: mom2yoy_def)

section \<open>Several series: names, requests and the caller's list\<close>

lemma bind_err_Inr: "(bind_err m f = Inr y) = (\<exists>x. m = Inr x \<and> f x = Inr y)"
  by (cases m) simp_all

lemma get_series_state:
  "snd (get_series E code name start endd rt dc st) = st\<lparr>requests := requests st @ [series_url code]\<rparr>"
  by (simp add: get_series_def Let_def)

lemma get_series_columns:
  assumes "get_series E code name start endd AsDataFrame dc st = (Inr x, st')"
  shows "map fst (columns (as_frame x)) = [name]"
  using assms
  by (auto simp: get_series_def Let_def series_of_frame_def bind_err_Inr split: if_splits)

lemma lay_out_names: "lay_out missing new df = Inr cols \<Longrightarrow> map fst cols = map fst (columns df)"
  by (auto simp: lay_out_def split: if_splits)

lemma concat_axis1_names:
  "concat_axis1 j missing result x = Inr r \<Longrightarrow>
   map fst (columns r) = map fst (columns result) @ map fst (columns (as_frame x))"
proof -
  assume a: "concat_axis1 j missing result x = Inr r"
  let ?new = "outer_axis j (index result) (index (as_frame x))"
  from a obtain left right where
    l: "lay_out missing ?new result = Inr left"
    and r: "lay_out missing ?new (as_frame x) = Inr right"
    and c: "columns r = left @ right"
    by (auto simp: concat_axis1_def Let_def bind_err_Inr)
  show ?thesis
    using lay_out_names [OF l] lay_out_names [OF r] c by simp
qed

lemma fetch_all_success:
  "fetch_all E pairs result st = (Inr r, st') \<Longrightarrow>
   requests st' = requests st @ map (\<lambda>p. series_url (fst p)) pairs
   \<and> heap st' = heap st
   \<and> map fst (columns r) = map fst (columns result) @ map snd pairs"
proof (induction pairs arbitrary: result st)
  case Nil
  then show ?case by simp
next
  case (Cons p pairs)
  obtain code name where p: "p = (code, name)" by (cases p)
  obtain x st1 where g: "get_series E code name None None AsDataFrame (u ''Data'') st = (x, st1)"
    by (cases "get_series E code name None None AsDataFrame (u ''Data'') st")
  have st1: "st1 = st\<lparr>requests := requests st @ [series_url code]\<rparr>"
    using get_series_state [of E code name None None AsDataFrame "u ''Data''" st] g by simp
  from Cons.prems p g obtain series result' where
    x: "x = Inr series"
    and c: "concat_axis1 (joined_axis E) (Num NaN) result series = Inr result'"
    and rest: "fetch_all E pairs result' st1 = (Inr r, st')"
    by (auto split: sum.splits)
  have n: "map fst (columns result') = map fst (columns result) @ [name]"
    using concat_axis1_names [OF c] get_series_columns [of E code name None None "u ''Data''" st series st1] g x
    by simp
  show ?case
    using Cons.IH [OF rest] n st1 p by simp
qed

lemma frame_loc_names:
  "frame_loc E df start endd = Inr r \<Longrightarrow> map fst (columns r) = map fst (columns df)"
  by (auto simp: frame_loc_def bind_err_Inr)

lemma length_name_complete: "length (name_complete n1 n2) = n1 - n2"
  by (auto simp: name_complete_def)

lemma reconcile_names:
  "fst (reconcile code_list name_list st) =
     (if length code_list < length (heap st name_list)
      then take (length code_list) (heap st name_list)
      else heap st name_list @ name_complete (length code_list) (length (heap st name_list)))"
  by (simp add: reconcile_def Let_def name_complete_def)

lemma reconcile_length: "length (fst (reconcile code_list name_list st)) = length code_list"
  by (simp add: reconcile_names length_name_complete)

lemma reconcile_state:
  "snd (reconcile code_list name_list st) =
     (if length (heap st name_list) < length code_list
      then st\<lparr>heap := (heap st)(name_list := heap st name_list
                  @ name_complete (length code_list) (length (heap st name_list)))\<rparr>
      else st)"
  by (simp add: reconcile_def Let_def)

lemma get_multiple_series_success:
  assumes "get_multiple_series E code_list name_list start endd st = (Inr result, st')"
  shows "requests st' = requests st @ map series_url code_list"
    and "map fst (columns result) = fst (reconcile code_list name_list st)"
    and "heap st' = heap (snd (reconcile code_list name_list st))"
proof -
  obtain names st1 where r: "reconcile code_list name_list st = (names, st1)"
    by (cases "reconcile code_list name_list st")
  have len: "length names = length code_list"
    using reconcile_length [of code_list name_list st] r by simp
  have req: "requests st1 = requests st"
    using reconcile_state [of code_list name_list st] r by (simp split: if_splits)
  from assms r obtain joined where
    f: "fetch_all E (zip code_list names) empty_frame st1 = (Inr joined, st')"
    and l: "frame_loc E joined start endd = Inr result"
    by (auto simp: get_multiple_series_def split: sum.splits prod.splits)
  have z: "map (\<lambda>p. series_url (fst p)) (zip code_list names) = map series_url code_list"
    "map snd (zip code_list names) = names"
    using len by (induction names code_list rule: list_induct2) simp_all
  show "requests st' = requests st @ map series_url code_list"
    using fetch_all_success [OF f] z req by simp
  show "map fst (columns result) = fst (reconcile code_list name_list st)"
    using fetch_all_success [OF f] frame_loc_names [OF l] z r by (simp add: empty_frame_def)
  show "heap st' = heap (snd (reconcile code_list name_list st))"
    using fetch_all_success [OF f] r by simp
qed


lemma demo_world_get_series:
  "name \<noteq> u ''Data'' \<Longrightarrow>
   get_series demo_world code name None None AsDataFrame (u ''Data'') st
   = (Inr (DataFrame (demo_table [name])), st\<lparr>requests := requests st @ [series_url code]\<rparr>)"
  by (simp add: get_series_def Let_def series_of_frame_def demo_world_def slice_positions_def
      take_positions_def demo_table_def demo_day_def demo_csv_def u_def)

lemma demo_world_concat:
  "concat_axis1 (joined_axis demo_world) (Num NaN) (demo_table names) (DataFrame (demo_table [name]))
   = Inr (demo_table (names @ [name]))"
  by (simp add: concat_axis1_def Let_def outer_axis_def lay_out_def demo_table_def)

lemma demo_world_concat_empty:
  "concat_axis1 (joined_axis demo_world) (Num NaN) empty_frame (DataFrame (demo_table [name]))
   = Inr (demo_table [name])"
  by (simp add: concat_axis1_def Let_def outer_axis_def lay_out_def demo_table_def empty_frame_def)

lemma demo_world_fetch_all:
  "\<forall>p \<in> set pairs. snd p \<noteq> u ''Data'' \<Longrightarrow>
   fetch_all demo_world pairs (demo_table names) st
   = (Inr (demo_table (names @ map snd pairs)),
      st\<lparr>requests := requests st @ map (\<lambda>p. series_url (fst p)) pairs\<rparr>)"
proof (induction pairs arbitrary: names st)
  case Nil
  then show ?case by simp
next
  case (Cons p pairs)
  obtain code name where p: "p = (code, name)" by (cases p)
  with Cons.prems have n: "name \<noteq> u ''Data''" by simp
  show ?case
    using Cons.IH [of "names @ [name]"] Cons.prems p
    by (simp add: demo_world_get_series [OF n] demo_world_concat)
qed

lemma demo_world_fetch_all_empty:
  "\<forall>p \<in> set (p0 # pairs). snd p \<noteq> u ''Data'' \<Longrightarrow>
   fetch_all demo_world (p0 # pairs) empty_frame st
   = (Inr (demo_table (map snd (p0 # pairs))),
      st\<lparr>requests := requests st @ map (\<lambda>p. series_url (fst p)) (p0 # pairs)\<rparr>)"
proof -
  assume a: "\<forall>p \<in> set (p0 # pairs). snd p \<noteq> u ''Data''"
  obtain code name where p: "p0 = (code, name)" by (cases p0)
  with a have n: "name \<noteq> u ''Data''" by simp
  have r: "\<forall>p \<in> set pairs. snd p \<noteq> u ''Data''" using a by simp
  show ?thesis
    using p by (simp add: demo_world_get_series [OF n] demo_world_concat_empty demo_world_fetch_all [OF r])
qed

lemma demo_table_loc: "frame_loc demo_world (demo_table names) None None = Inr (demo_table names)"
  by (simp add: frame_loc_def slice_positions_def take_positions_def demo_table_def comp_def)

lemma demo_run_3_2:
  "get_multiple_series demo_world [1, 2, 3] 0 None None (caller_state [u ''a'', u ''b''])
   = (Inr (demo_table [u ''a'', u ''b'', u ''unnamed_1'']),
      \<lparr>heap = (\<lambda>a. if a = 0 then [u ''a'', u ''b'', u ''unnamed_1''] else []),
       requests = [series_url 1, series_url 2, series_url 3]\<rparr>)"
proof -
  have r: "reconcile [1, 2, 3] 0 (caller_state [u ''a'', u ''b''])
      = ([u ''a'', u ''b'', u ''unnamed_1''],
         \<lparr>heap = (\<lambda>a. if a = 0 then [u ''a'', u ''b'', u ''unnamed_1''] else []), requests = []\<rparr>)"
    by (auto simp: reconcile_def caller_state_def name_complete_def Let_def u_def)
  have n: "\<forall>p \<in> set [(1::int, u ''a''), (2, u ''b''), (3, u ''unnamed_1'')]. snd p \<noteq> u ''Data''"
    by (simp add: u_def)
  show ?thesis
    unfolding get_multiple_series_def r
    using demo_world_fetch_all_empty [OF n] by (simp add: demo_table_loc)
qed

lemma demo_run_2_1:
  "get_multiple_series demo_world [1, 2] 0 None None (caller_state [u ''a''])
   = (Inr (demo_table [u ''a'', u ''unnamed_1'']),
      \<lparr>heap = (\<lambda>a. if a = 0 then [u ''a'', u ''unnamed_1''] else []),
       requests = [series_url 1, series_url 2]\<rparr>)"
proof -
  have r: "reconcile [1, 2] 0 (caller_state [u ''a''])
      = ([u ''a'', u ''unnamed_1''],
         \<lparr>heap = (\<lambda>a. if a = 0 then [u ''a'', u ''unnamed_1''] else []), requests = []\<rparr>)"
    by (auto simp: reconcile_def caller_state_def name_complete_def Let_def u_def)
  have n: "\<forall>p \<in> set [(1::int, u ''a''), (2, u ''unnamed_1'')]. snd p \<noteq> u ''Data''"
    by (simp add: u_def)
  show ?thesis
    unfolding get_multiple_series_def r
    using demo_world_fetch_all_empty [OF n] by (simp add: demo_table_loc)
qed

text \<open>
  Claim C1, as stated, fails: with codes \<open>[1, 2, 3]\<close> and names \<open>[a, b]\<close> the three codes are
  requested, the third under the name \<open>unnamed_1\<close>.
\<close>

theorem code_truncation_counterexample:
  "requests (snd (get_multiple_series demo_world [1, 2, 3] 0 None None (caller_state [u ''a'', u ''b''])))
   = [series_url 1, series_url 2, series_url 3]
   \<and> fst (get_multiple_series demo_world [1, 2, 3] 0 None None (caller_state [u ''a'', u ''b'']))
     = Inr (demo_table [u ''a'', u ''b'', u ''unnamed_1''])"
  by (simp add: demo_run_3_2)

text \<open>
  Claim C1, amended. A call of \<open>get_multiple_series\<close> that returns has requested every
  code of \<open>code_list\<close>, in order, whatever the lengths. With more names than codes the
  columns carry the first names, as many as there are codes; otherwise they carry all
  the names, followed by the synthesized ones.
\<close>

theorem get_multiple_series_fetches_every_code:
  assumes "get_multiple_series E code_list name_list start endd st = (Inr result, st')"
  shows "requests st' = requests st @ map series_url code_list
         \<and> map fst (columns result) =
             (if length code_list < length (heap st name_list)
              then take (length code_list) (heap st name_list)
              else heap st name_list @ name_complete (length code_list) (length (heap st name_list)))"
  using get_multiple_series_success(1,2) [OF assms] by (simp add: reconcile_names)

theorem get_multiple_series_fetches_every_code_witness:
  "get_multiple_series demo_world [1, 2, 3] 0 None None (caller_state [u ''a'', u ''b''])
   = (Inr (demo_table [u ''a'', u ''b'', u ''unnamed_1'']),
      \<lparr>heap = (\<lambda>a. if a = 0 then [u ''a'', u ''b'', u ''unnamed_1''] else []),
       requests = [series_url 1, series_url 2, series_url 3]\<rparr>)
   \<and> [series_url 1, series_url 2, series_url 3]
     = requests (caller_state [u ''a'', u ''b'']) @ map series_url [1, 2, 3]
   \<and> map fst (columns (demo_table [u ''a'', u ''b'', u ''unnamed_1'']))
     = [u ''a'', u ''b'', u ''unnamed_1'']"
proof -
  have "requests \<lparr>heap = (\<lambda>a. if a = 0 then [u ''a'', u ''b'', u ''unnamed_1''] else []),
                  requests = [series_url 1, series_url 2, series_url 3]\<rparr>
        = requests (caller_state [u ''a'', u ''b'']) @ map series_url [1, 2, 3]"
    using get_multiple_series_fetches_every_code [OF demo_run_3_2] by blast
  then show ?thesis
    using demo_run_3_2 by (simp add: demo_table_def)
qed

text \<open>
  Claim C2. When the codes outnumber the names, a call that returns has requested every
  code, and its columns are named by the given names followed by \<open>unnamed_1\<close>,
  \<open>unnamed_2\<close>, ... up to the number of codes; with codes \<open>[1, 2]\<close> and names \<open>[a]\<close> the
  columns are \<open>a\<close> and \<open>unnamed_1\<close>.
\<close>

theorem get_multiple_series_pads_names:
  assumes "length (heap st name_list) < length code_list"
    and "get_multiple_series E code_list name_list start endd st = (Inr result, st')"
  shows "map fst (columns result) =
           heap st name_list
           @ map (\<lambda>i. u ''unnamed_'' @ str_nat i) [1..<length code_list - length (heap st name_list) + 1]
         \<and> requests st' = requests st @ map series_url code_list"
  using get_multiple_series_success(1,2) [OF assms(2)] assms(1)
  by (simp add: reconcile_names name_complete_def)

theorem get_multiple_series_pads_names_witness:
  "length (heap (caller_state [u ''a'']) 0) < length [1, 2 :: int]
   \<and> get_multiple_series demo_world [1, 2] 0 None None (caller_state [u ''a''])
     = (Inr (demo_table [u ''a'', u ''unnamed_1'']),
        \<lparr>heap = (\<lambda>a. if a = 0 then [u ''a'', u ''unnamed_1''] else []),
         requests = [series_url 1, series_url 2]\<rparr>)
   \<and> map fst (columns (demo_table [u ''a'', u ''unnamed_1'']))
     = heap (caller_state [u ''a'']) 0 @ [u ''unnamed_'' @ str_nat 1]"
proof -
  have h: "length (heap (caller_state [u ''a'']) 0) < length [1, 2 :: int]"
    by (simp add: caller_state_def)
  have "map fst (columns (demo_table [u ''a'', u ''unnamed_1'']))
        = heap (caller_state [u ''a'']) 0
          @ map (\<lambda>i. u ''unnamed_'' @ str_nat i)
              [1..<length [1, 2 :: int] - length (heap (caller_state [u ''a'']) 0) + 1]"
    using get_multiple_series_pads_names [OF h demo_run_2_1] by blast
  moreover have "[1..<length [1, 2 :: int] - length (heap (caller_state [u ''a'']) 0) + 1] = [1]"
    by (simp add: caller_state_def)
  ultimately show ?thesis
    using h demo_run_2_1 by simp
qed

text \<open>
  Claim C3 at the input codes \<open>[1, 2]\<close>, names \<open>[a]\<close>: the call returns, and the list
  object the caller passed, which held \<open>[a]\<close>, holds \<open>[a, unnamed_1]\<close> afterwards.
\<close>

theorem name_list_extended_in_place:
  "heap (caller_state [u ''a'']) 0 = [u ''a'']
   \<and> fst (get_multiple_series demo_world [1, 2] 0 None None (caller_state [u ''a'']))
     = Inr (demo_table [u ''a'', u ''unnamed_1''])
   \<and> heap (snd (get_multiple_series demo_world [1, 2] 0 None None (caller_state [u ''a'']))) 0
     = [u ''a'', u ''unnamed_1'']"
  unfolding demo_run_2_1 by (simp add: caller_state_def)

section \<open>The date range of one series\<close>





















lemma valid_day_2020_01_01: "valid_day (2020, 1, 1)"
  by (simp add: valid_day_def timestamp_year_def days_in_month_def)




section \<open>The reference date of an expectation\<close>

lemma create_query_url_valid:
  "frequency \<in> set valid_frequencies \<Longrightarrow> \<exists>url. create_query_url frequency Indicators start endd = Inr url"
proof -
  assume "frequency \<in> set valid_frequencies"
  then obtain base where "map_of urls_dict frequency = Some base"
    using map_of_urls_dict_None [of frequency] by (cases "map_of urls_dict frequency") auto
  then show ?thesis by (simp add: create_query_url_def Let_def)
qed

lemma slash_to_space:
  assumes "ascii_digit n" and "\<forall>c \<in> set year. ascii_digit c"
  shows "replace (u ''Q'' @ n # u ''/'' @ year) (u ''/'') (u '' '') = 81 # n # 32 # year"
proof -
  have "47 \<notin> set year" using assms(2) by (auto simp: ascii_digit_def)
  moreover have "n \<noteq> 47" using assms(1) by (auto simp: ascii_digit_def)
  moreover have "u ''/'' = [47]" "u '' '' = [32]" "u ''Q'' = [81]" by (simp_all add: u_def)
  ultimately show ?thesis
    using subst_char_id [of 47 year "[32]"] by (simp add: replace_single subst_char_def)
qed

lemma re_sub_quarter_match:
  assumes "ascii_digit n" and "year \<noteq> []" and "\<forall>c \<in> set year. ascii_digit c"
  shows "re_sub_quarter E (81 # n # 32 # year) = year @ u ''-Q'' @ [n]"
proof -
  obtain y rest where year: "year = y # rest" using assms(2) by (cases year) auto
  have d: "re_digit E n" "re_digit E y" "\<forall>c \<in> set rest. re_digit E c"
    using assms(1,3) year by (auto simp: re_digit_def)
  then have t: "takeWhile (re_digit E) rest = rest" "dropWhile (re_digit E) rest = []"
    by (simp_all add: takeWhile_eq_all_conv)
  have "re_sub_quarter E (81 # n # 32 # y # rest)
        = (y # takeWhile (re_digit E) rest) @ u ''-'' @ [81, n]
          @ re_sub_quarter E (dropWhile (re_digit E) rest)"
    using d by simp
  then show ?thesis unfolding t year by (simp add: u_def)
qed

lemma quarter_strings_reconstruct:
  assumes "ascii_digit n" and "year \<noteq> []" and "\<forall>c \<in> set year. ascii_digit c"
  shows "quarter_strings E [Str (n # u ''/'' @ year)] = Inr [Some (year @ u ''-Q'' @ [n])]"
proof -
  have "radd_str (u ''Q'') [Str (n # u ''/'' @ year)] = Inr [Some (u ''Q'' @ n # u ''/'' @ year)]"
    by (simp add: radd_str_def)
  then show ?thesis
    using slash_to_space [OF assms(1,3)] re_sub_quarter_match [OF assms, of E]
    by (simp add: quarter_strings_def)
qed

lemma period_start_quarter:
  assumes "length year = 4" and "\<forall>c \<in> set year. ascii_digit c" and "timestamp_year (digits_value year)"
    and "49 \<le> n" and "n \<le> 52"
  shows "period_start E (Some (year @ u ''-Q'' @ [n])) = Inr (Some (digits_value year, 3 * (n - 49) + 1, 1))"
proof -
  obtain y1 y2 y3 y4 where year: "year = [y1, y2, y3, y4]"
    using assms(1) by (auto simp: length_Suc_conv eval_nat_numeral)
  have "quarter_period (year @ u ''-Q'' @ [n]) = Some (digits_value year, n - 48)"
    using assms(2-5) year by (simp add: u_def)
  moreover have "n - 48 - 1 = n - 49" by simp
  ultimately show ?thesis
    by (simp add: period_start_def quarter_start_def)
qed


lemma traverse_map:
  "\<forall>x \<in> set xs. f (h x) = Inr (g x) \<Longrightarrow> traverse f (map h xs) = Inr (map g xs)"
  by (induction xs) simp_all

lemma quarter_cell_rebuilt:
  assumes "quarter_value (n, year)"
  shows "re_sub_quarter E (replace (u ''Q'' @ n # u ''/'' @ year) (u ''/'') (u '' ''))
         = year @ u ''-Q'' @ [n]"
proof -
  have d: "ascii_digit n" "\<forall>c \<in> set year. ascii_digit c" "year \<noteq> []"
    using assms by (auto simp: quarter_value_def ascii_digit_def)
  show ?thesis
    using slash_to_space [OF d(1,2)] re_sub_quarter_match [OF d(1,3,2), of E] by simp
qed

lemma quarter_cell_day:
  assumes "quarter_value (n, year)"
  shows "period_start E (Some (year @ u ''-Q'' @ [n])) = Inr (Some (digits_value year, 3 * (n - 49) + 1, 1))"
  using assms by (intro period_start_quarter) (auto simp: quarter_value_def)

lemma quarter_column:
  assumes "qs = [] \<or> (\<exists>q \<in> set qs. q \<noteq> None)"
    and "\<forall>q \<in> set qs. \<forall>v. q = Some v \<longrightarrow> quarter_value v"
  shows "bind_err (quarter_strings E (map raw_quarter qs)) (\<lambda>strings.
           bind_err (traverse (period_start E) strings) (\<lambda>dates. Inr (map ts_cell dates)))
         = Inr (map quarter_day qs)"
proof -
  let ?prefixed = "\<lambda>q. map_option (\<lambda>(n, year). u ''Q'' @ n # u ''/'' @ year) q"
  let ?rebuilt = "\<lambda>q. map_option (\<lambda>(n, year). year @ u ''-Q'' @ [n]) q"
  let ?day = "\<lambda>q. map_option (\<lambda>(n, year). (digits_value year, 3 * (n - 49) + 1, 1 :: nat)) q"
  have typed: "\<not> (map raw_quarter qs \<noteq> [] \<and> \<not> (\<exists>c \<in> set (map raw_quarter qs). is_Str c))"
  proof (cases "qs = []")
    case True
    then show ?thesis by simp
  next
    case False
    then obtain n year where "Some (n, year) \<in> set qs" using assms(1) by auto
    then have "raw_quarter (Some (n, year)) \<in> raw_quarter ` set qs" by (rule imageI)
    then have "Str (n # u ''/'' @ year) \<in> set (map raw_quarter qs)" by simp
    then have "\<exists>c \<in> set (map raw_quarter qs). is_Str c" by (rule bexI [rotated]) simp
    then show ?thesis by blast
  qed
  have "radd_cell (u ''Q'') (raw_quarter q) = Inr (?prefixed q)" for q
    by (cases q) auto
  then have "traverse (radd_cell (u ''Q'')) (map raw_quarter qs) = Inr (map ?prefixed qs)"
    by (intro traverse_map) simp
  then have radd: "radd_str (u ''Q'') (map raw_quarter qs) = Inr (map ?prefixed qs)"
    using typed by (simp add: radd_str_def)
  have cell: "map_option (re_sub_quarter E) (map_option (\<lambda>s. replace s (u ''/'') (u '' '')) (?prefixed q))
        = ?rebuilt q" if "q \<in> set qs" for q
  proof (cases q)
    case None
    then show ?thesis by simp
  next
    case (Some v)
    obtain n year where v: "v = (n, year)" by (cases v)
    have "quarter_value (n, year)" using assms(2) that Some v by auto
    then show ?thesis using Some v quarter_cell_rebuilt [of n year E] by simp
  qed
  have strings: "quarter_strings E (map raw_quarter qs) = Inr (map ?rebuilt qs)"
    using radd cell by (simp add: quarter_strings_def)
  have "period_start E (?rebuilt q) = Inr (?day q)" if "q \<in> set qs" for q
  proof (cases q)
    case None
    then show ?thesis by (simp add: period_start_def)
  next
    case (Some v)
    obtain n year where v: "v = (n, year)" by (cases v)
    have "quarter_value (n, year)" using assms(2) that Some v by auto
    then show ?thesis using Some v quarter_cell_day [of n year E] by simp
  qed
  then have "traverse (period_start E) (map ?rebuilt qs) = Inr (map ?day qs)"
    by (intro traverse_map) simp
  moreover have "ts_cell (?day q) = quarter_day q" for q
    by (cases q) auto
  ultimately show ?thesis using strings by simp
qed

lemma map_of_replace_other:
  "k' \<noteq> k \<Longrightarrow> map_of (map (\<lambda>(n, col). if n = k then (n, v) else (n, col)) cols) k' = map_of cols k'"
  by (induction cols) auto

lemma getitem_setitem_other:
  assumes "setitem df0 k v = Inr df" and "k' \<noteq> k"
  shows "getitem df k' = getitem df0 k'"
proof -
  have "map_of (columns df) k' = map_of (columns df0) k'"
    using assms by (auto simp: setitem_def map_of_replace_other map_add_def split: if_splits option.splits)
  then show ?thesis by (simp add: getitem_def)
qed

lemma frequency_names:
  "u ''quarterly'' \<noteq> u ''monthly''" "u ''quarterly'' \<noteq> u ''annual''" "u ''annual'' \<noteq> u ''monthly''"
  "u ''DataReferencia'' \<noteq> u ''Data''"
  by (simp_all add: u_def)

lemma quarter_2_2021:
  "bind_err (quarter_strings E [Str (u ''2/2021'')]) (traverse (period_start E)) = Inr [Some (2021, 4, 1)]"
proof -
  have a: "u ''2/2021'' = 50 # u ''/'' @ u ''2021''" by (simp add: u_def)
  have q: "quarter_strings E [Str (u ''2/2021'')] = Inr [Some (u ''2021'' @ u ''-Q'' @ [50])]"
    unfolding a by (rule quarter_strings_reconstruct) (simp_all add: ascii_digit_def u_def)
  have "period_start E (Some (u ''2021'' @ u ''-Q'' @ [50]))
        = Inr (Some (digits_value (u ''2021''), 3 * (50 - 49) + 1, 1))"
    by (rule period_start_quarter)
       (simp_all add: ascii_digit_def u_def digits_value_def timestamp_year_def)
  moreover have "digits_value (u ''2021'') = 2021" by (simp add: digits_value_def u_def)
  ultimately show ?thesis using q by simp
qed

text \<open>
  Claim C6. Let the table be read and its \<open>Data\<close> column parsed, and let \<open>raw\<close> be the
  \<open>DataReferencia\<close> column as read. Then the result is the table with that column
  \<^item> parsed with format \<open>%m/%Y\<close> for \<open>monthly\<close> and with format \<open>%Y\<close> for \<open>annual\<close>;
  \<^item> for \<open>quarterly\<close>, rebuilt cell by cell and parsed as quarter periods, each giving
    the first day of its quarter: a raw value \<open>n/year\<close> (a digit, a slash, digits) is
    rebuilt as \<open>year-Qn\<close>, and \<open>year-Qn\<close> stands for the day \<open>(year, 3 (n - 1) + 1, 1)\<close>,
    so \<open>2/2021\<close> becomes 2021-04-01. For a column of any length whose cells are
    quarters \<open>n/year\<close> (\<open>n\<close> from 1 to 4, a year of four digits that a timestamp can
    hold) or missing, and not all missing, the new column holds for every row the first
    day of its quarter, and NaT where the cell is missing;
  \<^item> left as read for every other frequency.
  The second replacement of the source is read as a regular expression, which is what
  its pattern with groups and back-references asks for.
\<close>

theorem reference_date_per_frequency:
  assumes "create_query_url frequency Indicators start endd = Inr url"
    and "read_csv E (requests st) url (u '','') (u '','') = Inr df0"
    and "getitem df0 (u ''Data'') = Inr observed"
    and "to_datetime E None observed = Inr days"
    and "setitem df0 (u ''Data'') (map ts_cell days) = Inr df"
    and "getitem df0 (u ''DataReferencia'') = Inr raw"
  shows "(frequency = u ''monthly'' \<longrightarrow>
            fst (get_market_expectations E frequency Indicators start endd st)
            = bind_err (to_datetime E (Some (u ''%m/%Y'')) raw) (\<lambda>dates.
                setitem df (u ''DataReferencia'') (map ts_cell dates)))
         \<and> (frequency = u ''annual'' \<longrightarrow>
            fst (get_market_expectations E frequency Indicators start endd st)
            = bind_err (to_datetime E (Some (u ''%Y'')) raw) (\<lambda>dates.
                setitem df (u ''DataReferencia'') (map ts_cell dates)))
         \<and> (frequency = u ''quarterly'' \<longrightarrow>
            fst (get_market_expectations E frequency Indicators start endd st)
            = bind_err (quarter_strings E raw) (\<lambda>qs.
              bind_err (traverse (period_start E) qs) (\<lambda>dates.
                setitem df (u ''DataReferencia'') (map ts_cell dates))))
         \<and> (frequency = u ''quarterly'' \<longrightarrow>
            (\<forall>qs. raw = map raw_quarter qs \<longrightarrow> (qs = [] \<or> (\<exists>q \<in> set qs. q \<noteq> None)) \<longrightarrow>
                  (\<forall>q \<in> set qs. \<forall>v. q = Some v \<longrightarrow> quarter_value v) \<longrightarrow>
               fst (get_market_expectations E frequency Indicators start endd st)
               = setitem df (u ''DataReferencia'') (map quarter_day qs)))
         \<and> (frequency \<notin> {u ''monthly'', u ''annual'', u ''quarterly''} \<longrightarrow>
            fst (get_market_expectations E frequency Indicators start endd st) = Inr df
            \<and> getitem df (u ''DataReferencia'') = Inr raw)
         \<and> (\<forall>n year. ascii_digit n \<longrightarrow> year \<noteq> [] \<longrightarrow> (\<forall>c \<in> set year. ascii_digit c) \<longrightarrow>
              quarter_strings E [Str (n # u ''/'' @ year)] = Inr [Some (year @ u ''-Q'' @ [n])])
         \<and> (\<forall>n year. length year = 4 \<longrightarrow> (\<forall>c \<in> set year. ascii_digit c) \<longrightarrow>
              timestamp_year (digits_value year) \<longrightarrow> 49 \<le> n \<longrightarrow> n \<le> 52 \<longrightarrow>
              period_start E (Some (year @ u ''-Q'' @ [n]))
              = Inr (Some (digits_value year, 3 * (n - 49) + 1, 1)))
         \<and> (frequency = u ''quarterly'' \<longrightarrow> raw = [Str (u ''2/2021'')] \<longrightarrow>
            fst (get_market_expectations E frequency Indicators start endd st)
            = setitem df (u ''DataReferencia'') [Ts (2021, 4, 1)])"
proof -
  have raw: "getitem df (u ''DataReferencia'') = Inr raw"
    using getitem_setitem_other [OF assms(5) frequency_names(4)] assms(6) by simp
  have run: "fst (get_market_expectations E frequency Indicators start endd st)
        = (if frequency = u ''monthly'' then parse_reference E (u ''%m/%Y'') df
           else if frequency = u ''annual'' then parse_reference E (u ''%Y'') df
           else if frequency = u ''quarterly''
           then bind_err (quarter_strings E raw) (\<lambda>qs.
                bind_err (traverse (period_start E) qs) (\<lambda>dates.
                  setitem df (u ''DataReferencia'') (map ts_cell dates)))
           else Inr df)"
    using assms(1-5) raw by (simp add: get_market_expectations_def parse_expectations_def)
  have ref: "parse_reference E fmt df
        = bind_err (to_datetime E (Some fmt) raw) (\<lambda>dates.
            setitem df (u ''DataReferencia'') (map ts_cell dates))" for fmt
    using raw by (simp add: parse_reference_def)
  have monthly: "frequency = u ''monthly'' \<longrightarrow>
            fst (get_market_expectations E frequency Indicators start endd st)
            = bind_err (to_datetime E (Some (u ''%m/%Y'')) raw) (\<lambda>dates.
                setitem df (u ''DataReferencia'') (map ts_cell dates))"
    unfolding run ref by simp
  have annual: "frequency = u ''annual'' \<longrightarrow>
            fst (get_market_expectations E frequency Indicators start endd st)
            = bind_err (to_datetime E (Some (u ''%Y'')) raw) (\<lambda>dates.
                setitem df (u ''DataReferencia'') (map ts_cell dates))"
    unfolding run ref using frequency_names by simp
  have quarterly: "frequency = u ''quarterly'' \<longrightarrow>
            fst (get_market_expectations E frequency Indicators start endd st)
            = bind_err (quarter_strings E raw) (\<lambda>qs.
              bind_err (traverse (period_start E) qs) (\<lambda>dates.
                setitem df (u ''DataReferencia'') (map ts_cell dates)))"
    unfolding run using frequency_names by simp
  have column: "fst (get_market_expectations E frequency Indicators start endd st)
               = setitem df (u ''DataReferencia'') (map quarter_day qs)"
    if f: "frequency = u ''quarterly''" and r: "raw = map raw_quarter qs"
      and t: "qs = [] \<or> (\<exists>q \<in> set qs. q \<noteq> None)"
      and v: "\<forall>q \<in> set qs. \<forall>v. q = Some v \<longrightarrow> quarter_value v" for qs
  proof -
    obtain strings dates where s: "quarter_strings E (map raw_quarter qs) = Inr strings"
      and d: "traverse (period_start E) strings = Inr dates"
      and m: "map ts_cell dates = map quarter_day qs"
      using quarter_column [OF t v, of E] by (auto simp: bind_err_Inr)
    show ?thesis using quarterly f r s d m by simp
  qed
  have other: "frequency \<notin> {u ''monthly'', u ''annual'', u ''quarterly''} \<longrightarrow>
            fst (get_market_expectations E frequency Indicators start endd st) = Inr df
            \<and> getitem df (u ''DataReferencia'') = Inr raw"
    unfolding run using raw by simp
  have example: "frequency = u ''quarterly'' \<longrightarrow> raw = [Str (u ''2/2021'')] \<longrightarrow>
            fst (get_market_expectations E frequency Indicators start endd st)
            = setitem df (u ''DataReferencia'') [Ts (2021, 4, 1)]"
  proof (intro impI)
    assume f: "frequency = u ''quarterly''" and r: "raw = [Str (u ''2/2021'')]"
    obtain qs where qs: "quarter_strings E [Str (u ''2/2021'')] = Inr qs"
      and t: "traverse (period_start E) qs = Inr [Some (2021, 4, 1)]"
      using quarter_2_2021 [of E] by (auto simp: bind_err_Inr)
    show "fst (get_market_expectations E frequency Indicators start endd st)
            = setitem df (u ''DataReferencia'') [Ts (2021, 4, 1)]"
      using quarterly f r qs t by simp
  qed
  show ?thesis
    using monthly annual quarterly other example column
      quarter_strings_reconstruct [of _ _ E] period_start_quarter [of _ _ E]
    by blast
qed

theorem reference_date_per_frequency_witness:
  "(\<exists>url. create_query_url (u ''quarterly'') None None None = Inr url)
   \<and> getitem demo_answers (u ''Data'')
     = Inr [Str (u ''2021-01-04''), Str (u ''2021-01-04''), Str (u ''2021-01-04'')]
   \<and> getitem demo_answers (u ''DataReferencia'')
     = Inr (map raw_quarter [Some (50, u ''2021''), None, Some (52, u ''2022'')])
   \<and> map raw_quarter [Some (50, u ''2021''), None, Some (52, u ''2022'')]
     = [Str (u ''2/2021''), Num NaN, Str (u ''4/2022'')]
   \<and> quarter_value (50, u ''2021'') \<and> quarter_value (52, u ''2022'')
   \<and> quarter_strings demo_survey [Str (u ''2/2021'')] = Inr [Some (u ''2021-Q2'')]
   \<and> fst (get_market_expectations demo_survey (u ''quarterly'') None None None (caller_state []))
     = Inr \<lparr>index = [0, 1, 2],
            columns = [(u ''Indicador'', [Str (u ''PIB Total''), Str (u ''PIB Total''), Str (u ''PIB Total'')]),
                       (u ''Data'', [Ts (2021, 1, 4), Ts (2021, 1, 4), Ts (2021, 1, 4)]),
                       (u ''DataReferencia'', [Ts (2021, 4, 1), NaT, Ts (2022, 10, 1)])]\<rparr>"
proof -
  let ?qs = "[Some (50, u ''2021''), None, Some (52, u ''2022'')]"
  let ?df = "\<lparr>index = [0::nat, 1, 2],
              columns = [(u ''Indicador'', [Str (u ''PIB Total''), Str (u ''PIB Total''), Str (u ''PIB Total'')]),
                         (u ''Data'', [Ts (2021, 1, 4), Ts (2021, 1, 4), Ts (2021, 1, 4)]),
                         (u ''DataReferencia'', [Str (u ''2/2021''), Num NaN, Str (u ''4/2022'')])]\<rparr>"
  obtain url where 1: "create_query_url (u ''quarterly'') None None None = Inr url"
    using create_query_url_valid [of "u ''quarterly''" None None None]
    by (auto simp: valid_frequencies_def)
  have 2: "read_csv demo_survey (requests (caller_state [])) url (u '','') (u '','') = Inr demo_answers"
    by (simp add: demo_survey_def)
  have 3: "getitem demo_answers (u ''Data'')
           = Inr [Str (u ''2021-01-04''), Str (u ''2021-01-04''), Str (u ''2021-01-04'')]"
    by (simp add: getitem_def demo_answers_def u_def)
  have 4: "to_datetime demo_survey None [Str (u ''2021-01-04''), Str (u ''2021-01-04''), Str (u ''2021-01-04'')]
           = Inr [Some (2021, 1, 4), Some (2021, 1, 4), Some (2021, 1, 4)]"
    by (simp add: demo_survey_def)
  have 5: "setitem demo_answers (u ''Data'') (map ts_cell [Some (2021, 1, 4), Some (2021, 1, 4), Some (2021, 1, 4)])
           = Inr ?df"
    by (simp add: setitem_def demo_answers_def u_def)
  have cells: "map raw_quarter ?qs = [Str (u ''2/2021''), Num NaN, Str (u ''4/2022'')]"
    by (simp add: u_def)
  have 6: "getitem demo_answers (u ''DataReferencia'') = Inr (map raw_quarter ?qs)"
    unfolding cells by (simp add: getitem_def demo_answers_def u_def)
  have v: "quarter_value (50, u ''2021'')" "quarter_value (52, u ''2022'')"
    by (simp_all add: quarter_value_def ascii_digit_def digits_value_def timestamp_year_def u_def)
  have typed: "?qs = [] \<or> (\<exists>q \<in> set ?qs. q \<noteq> None)" by simp
  have valid: "\<forall>q \<in> set ?qs. \<forall>w. q = Some w \<longrightarrow> quarter_value w" using v by simp
  note t = reference_date_per_frequency [OF 1 2 3 4 5 6]
  have col: "fst (get_market_expectations demo_survey (u ''quarterly'') None None None (caller_state []))
        = setitem ?df (u ''DataReferencia'') (map quarter_day ?qs)"
    using t typed valid by blast
  have days: "map quarter_day ?qs = [Ts (2021, 4, 1), NaT, Ts (2022, 10, 1)]"
    by (simp add: digits_value_def u_def)
  have "setitem ?df (u ''DataReferencia'') [Ts (2021, 4, 1), NaT, Ts (2022, 10, 1)]
        = Inr \<lparr>index = [0, 1, 2],
            columns = [(u ''Indicador'', [Str (u ''PIB Total''), Str (u ''PIB Total''), Str (u ''PIB Total'')]),
                       (u ''Data'', [Ts (2021, 1, 4), Ts (2021, 1, 4), Ts (2021, 1, 4)]),
                       (u ''DataReferencia'', [Ts (2021, 4, 1), NaT, Ts (2022, 10, 1)])]\<rparr>"
    by (simp add: setitem_def u_def)
  then have final: "fst (get_market_expectations demo_survey (u ''quarterly'') None None None (caller_state []))
        = Inr \<lparr>index = [0, 1, 2],
            columns = [(u ''Indicador'', [Str (u ''PIB Total''), Str (u ''PIB Total''), Str (u ''PIB Total'')]),
                       (u ''Data'', [Ts (2021, 1, 4), Ts (2021, 1, 4), Ts (2021, 1, 4)]),
                       (u ''DataReferencia'', [Ts (2021, 4, 1), NaT, Ts (2022, 10, 1)])]\<rparr>"
    using col days by simp
  have "quarter_strings demo_survey [Str (50 # u ''/'' @ u ''2021'')]
        = Inr [Some (u ''2021'' @ u ''-Q'' @ [50])]"
    using t by (simp add: ascii_digit_def u_def)
  then have one: "quarter_strings demo_survey [Str (u ''2/2021'')] = Inr [Some (u ''2021-Q2'')]"
    by (simp add: u_def)
  show ?thesis
    using 1 3 6 cells v one final by blast
qed

section \<open>From month-over-month changes to an index\<close>










































end
